theory Spec2Isabelle
  imports Main
begin

section \<open>Python values, exceptions and the external libraries\<close>

text \<open>
  A Python \<open>str\<close> is represented by its UTF-8 byte sequence, so \<open>str\<close> and \<open>bytes\<close> values are
  both byte lists: \<open>s.encode()\<close> is the identity and \<open>b.decode()\<close> is the (fallible) library
  function \<open>bytes_decode\<close>. Strings that have no UTF-8 form (lone surrogates) are outside the
  model.
\<close>

type_synonym bytes = string

datatype exc_class =
    Exception | ValueError | KeyError | IndexError | TypeError | AttributeError
  | UnicodeDecodeError | JSONDecodeError | BinasciiError | InvalidSignature

text \<open>An exception is its class together with \<open>str(e)\<close>.\<close>

datatype exc = Raise exc_class string

fun exc_message :: "exc \<Rightarrow> string" where
  "exc_message (Raise c m) = m"

fun exc_type :: "exc \<Rightarrow> exc_class" where
  "exc_type (Raise c m) = c"

definition bind_exc :: "exc + 'a \<Rightarrow> ('a \<Rightarrow> exc + 'b) \<Rightarrow> exc + 'b" where
  "bind_exc m f = (case m of Inl e \<Rightarrow> Inl e | Inr x \<Rightarrow> f x)"

text \<open>
  The values that \<open>json.load\<close> produces and \<open>json.dump\<close> accepts (floats are left out). A dict is
  an association list in insertion order; \<open>JNull\<close> is \<open>None\<close>.
\<close>

datatype json =
    JNull | JBool bool | JInt int | JStr string
  | JArr "json list" | JObj "(string \<times> json) list"

fun type_name :: "json \<Rightarrow> string" where
  "type_name JNull = ''NoneType''"
| "type_name (JBool b) = ''bool''"
| "type_name (JInt i) = ''int''"
| "type_name (JStr s) = ''str''"
| "type_name (JArr xs) = ''list''"
| "type_name (JObj kvs) = ''dict''"

definition quote :: "string \<Rightarrow> string" where
  "quote s = [CHR 0x27] @ s @ [CHR 0x27]"

text \<open>Python truthiness, as used by \<open>if cert_serial:\<close> and \<open>username if username else ...\<close>.\<close>

fun truthy :: "json \<Rightarrow> bool" where
  "truthy JNull = False"
| "truthy (JBool b) = b"
| "truthy (JInt i) = (i \<noteq> 0)"
| "truthy (JStr s) = (s \<noteq> [])"
| "truthy (JArr xs) = (xs \<noteq> [])"
| "truthy (JObj kvs) = (kvs \<noteq> [])"

text \<open>\<open>d[k]\<close> on a dict held as a map.\<close>

definition dict_get :: "(string \<rightharpoonup> 'v) \<Rightarrow> string \<Rightarrow> exc + 'v" where
  "dict_get d k = (case d k of None \<Rightarrow> Inl (Raise KeyError (quote k)) | Some v \<Rightarrow> Inr v)"

text \<open>\<open>v[k]\<close> with a string key on a value that came out of \<open>json.load\<close>.\<close>

fun getitem :: "json \<Rightarrow> string \<Rightarrow> exc + json" where
  "getitem (JObj kvs) k =
     (case map_of kvs k of None \<Rightarrow> Inl (Raise KeyError (quote k)) | Some v \<Rightarrow> Inr v)"
| "getitem (JArr xs) k = Inl (Raise TypeError ''list indices must be integers or slices, not str'')"
| "getitem (JStr s) k = Inl (Raise TypeError ''string indices must be integers'')"
| "getitem v k = Inl (Raise TypeError (quote (type_name v) @ '' object is not subscriptable''))"

text \<open>
  \<open>for entry in v\<close>: a list yields its elements, a dict its keys, a string its characters (here
  one element per byte; every element is a \<open>str\<close> either way); other values are not iterable.
\<close>

fun iterate :: "json \<Rightarrow> exc + json list" where
  "iterate (JArr xs) = Inr xs"
| "iterate (JObj kvs) = Inr (map (\<lambda>kv. JStr (fst kv)) kvs)"
| "iterate (JStr s) = Inr (map (\<lambda>c. JStr [c]) s)"
| "iterate v = Inl (Raise TypeError (quote (type_name v) @ '' object is not iterable''))"

text \<open>\<open>str(n)\<close> for an integer: its decimal numeral.\<close>

function str_nat :: "nat \<Rightarrow> string" where
  "str_nat n = (if n < 10 then [char_of (48 + n)] else str_nat (n div 10) @ [char_of (48 + n mod 10)])"
  by pat_completeness auto
termination
  by (relation "measure (\<lambda>n. n)") auto

definition str_int :: "int \<Rightarrow> string" where
  "str_int i = (if i < 0 then CHR ''-'' # str_nat (nat (- i)) else str_nat (nat i))"

text \<open>
  Everything the two modules import: \<open>base64\<close>, \<open>json\<close>, \<open>bytes.decode\<close> and the
  \<open>cryptography\<close> package. The key and certificate objects are the type parameters. A
  randomised primitive takes the random bytes it draws as an argument.
\<close>

record ('sk, 'pk, 'cert) lib =
  b64encode :: "bytes \<Rightarrow> string"
  b64decode :: "string \<Rightarrow> exc + bytes"
  bytes_decode :: "bytes \<Rightarrow> exc + string"
  json_dumps :: "bool \<Rightarrow> json \<Rightarrow> string"
  json_loads :: "string \<Rightarrow> exc + json"
  aes_cbc_encrypt :: "bytes \<Rightarrow> bytes \<Rightarrow> bytes \<Rightarrow> exc + bytes"
  aes_cbc_decrypt :: "bytes \<Rightarrow> bytes \<Rightarrow> bytes \<Rightarrow> exc + bytes"
  rsa_oaep_encrypt :: "'pk \<Rightarrow> bytes \<Rightarrow> bytes \<Rightarrow> exc + bytes"
  rsa_oaep_decrypt :: "'sk \<Rightarrow> bytes \<Rightarrow> exc + bytes"
  rsa_pss_sign :: "'sk \<Rightarrow> bytes \<Rightarrow> bytes \<Rightarrow> exc + bytes"
  rsa_pss_verify :: "'pk \<Rightarrow> bytes \<Rightarrow> bytes \<Rightarrow> exc + unit"
  rsa_generate_private_key :: "int \<Rightarrow> int \<Rightarrow> bytes \<Rightarrow> exc + 'sk"
  rsa_public_key :: "'sk \<Rightarrow> 'pk"
  pbkdf2_hmac_sha256 :: "string \<Rightarrow> bytes \<Rightarrow> bytes"
  private_bytes_pem :: "'sk \<Rightarrow> bytes"
  public_bytes_pem :: "'pk \<Rightarrow> bytes"
  load_pem_private_key :: "bytes \<Rightarrow> exc + 'sk"
  load_pem_public_key :: "bytes \<Rightarrow> exc + 'pk"
  cert_public_bytes_pem :: "'cert \<Rightarrow> bytes"
  load_pem_x509_certificate :: "bytes \<Rightarrow> exc + 'cert"
  cert_serial_number :: "'cert \<Rightarrow> int"
  cert_public_key :: "'cert \<Rightarrow> 'pk"
  cert_common_names :: "'cert \<Rightarrow> string list"

text \<open>
  \<open>json_dumps L sort_keys v\<close> is \<open>json.dumps(v, sort_keys=...)\<close>; the \<open>indent\<close> option of
  \<open>json.dump\<close> changes white space only and is not modelled. \<open>b64encode L b\<close> is
  \<open>base64.b64encode(b).decode()\<close>, the ASCII text. \<open>rsa_oaep_encrypt\<close>, \<open>rsa_oaep_decrypt\<close>,
  \<open>rsa_pss_sign\<close> and \<open>rsa_pss_verify\<close> are the RSA calls with the paddings the code passes
  (OAEP with MGF1 and SHA-256; PSS with MGF1, SHA-256 and maximal salt length).
  \<open>pbkdf2_hmac_sha256 L password salt\<close> is \<open>_derive_key_from_password\<close>: the 32-byte
  PBKDF2-HMAC-SHA256 key of 100000 iterations.
\<close>

text \<open>\<open>base64.b64decode(v)\<close> on a value taken from a dict: only a string is accepted.\<close>

definition b64decode_value :: "('sk, 'pk, 'cert) lib \<Rightarrow> json \<Rightarrow> exc + bytes" where
  "b64decode_value L v =
     (case v of
        JStr s \<Rightarrow> b64decode L s
      | _ \<Rightarrow> Inl (Raise TypeError
                 (''argument should be a bytes-like object or ASCII string, not '' @ quote (type_name v))))"

section \<open>KeyManager\<close>

record ('sk, 'pk, 'cert) key_manager =
  keystore_path :: string
  cert_path :: string
  global_revoked_path :: string
  private_key :: "'sk option"
  public_key :: "'pk option"
  certificate :: "'cert option"

text \<open>The files on disk: path to content.\<close>

type_synonym files = "string \<rightharpoonup> string"

text \<open>Calling a method on \<open>None\<close>.\<close>

definition none_has_no :: "string \<Rightarrow> exc" where
  "none_has_no attr = Raise AttributeError (quote ''NoneType'' @ '' object has no attribute '' @ quote attr)"

definition get_certificate_serial :: "('sk, 'pk, 'cert) lib \<Rightarrow> ('sk, 'pk, 'cert) key_manager \<Rightarrow> json" where
  "get_certificate_serial L km =
     (case certificate km of
        Some c \<Rightarrow> JStr (str_int (cert_serial_number L c))
      | None \<Rightarrow> JNull)"

text \<open>
  \<open>generate_key_pair\<close>: the requested size goes straight to the library's generator with public
  exponent 65537; \<open>seed\<close> is the randomness the generator draws. The fields are assigned only
  when the generator returns.
\<close>

definition generate_key_pair ::
  "('sk, 'pk, 'cert) lib \<Rightarrow> ('sk, 'pk, 'cert) key_manager \<Rightarrow> int \<Rightarrow> bytes
     \<Rightarrow> exc + ('sk, 'pk, 'cert) key_manager" where
  "generate_key_pair L km key_size seed =
     bind_exc (rsa_generate_private_key L 65537 key_size seed) (\<lambda>sk.
       Inr (km\<lparr>private_key := Some sk, public_key := Some (rsa_public_key L sk)\<rparr>))"

text \<open>
  The padding both \<open>encrypt_entry\<close> and \<open>save_keystore\<close> append, and the stripping both
  \<open>decrypt_entry\<close> and \<open>load_keystore\<close> do: \<open>b[-1]\<close> raises on empty bytes, and \<open>b[:-n]\<close> is empty
  for \<open>n = 0\<close> and for \<open>n\<close> beyond the length.
\<close>

definition pad16 :: "bytes \<Rightarrow> bytes" where
  "pad16 b = (let padding_length = 16 - length b mod 16
              in b @ replicate padding_length (char_of padding_length))"

definition last_byte :: "bytes \<Rightarrow> exc + nat" where
  "last_byte b = (if b = [] then Inl (Raise IndexError ''index out of range'') else Inr (of_char (last b)))"

definition drop_last :: "bytes \<Rightarrow> nat \<Rightarrow> bytes" where
  "drop_last b n = (if n = 0 then [] else take (length b - n) b)"

definition save_keystore ::
  "('sk, 'pk, 'cert) lib \<Rightarrow> ('sk, 'pk, 'cert) key_manager \<Rightarrow> files \<Rightarrow> string \<Rightarrow> bytes \<Rightarrow> bytes
     \<Rightarrow> exc + files" where
  "save_keystore L km fs password salt iv =
     (case private_key km of
        None \<Rightarrow> Inl (Raise ValueError ''No keys to save. Generate keys first.'')
      | Some sk \<Rightarrow>
         (case public_key km of
            None \<Rightarrow> Inl (none_has_no ''public_bytes'')
          | Some pk \<Rightarrow>
             (let private_pem = private_bytes_pem L sk;
                  public_pem = public_bytes_pem L pk;
                  cert_pem = map_option (cert_public_bytes_pem L) (certificate km);
                  keystore_data =
                    [(''private_key'', JStr (b64encode L private_pem)),
                     (''public_key'', JStr (b64encode L public_pem))]
                    @ (case cert_pem of
                         None \<Rightarrow> []
                       | Some c \<Rightarrow> if c = [] then [] else [(''certificate'', JStr (b64encode L c))]);
                  key = pbkdf2_hmac_sha256 L password salt;
                  padded_data = pad16 (json_dumps L False (JObj keystore_data))
              in bind_exc (aes_cbc_encrypt L key iv padded_data) (\<lambda>encrypted_data.
                   (let keystore = JObj [(''salt'', JStr (b64encode L salt)),
                                         (''iv'', JStr (b64encode L iv)),
                                         (''data'', JStr (b64encode L encrypted_data))];
                        fs1 = fs(keystore_path km \<mapsto> json_dumps L False keystore)
                    in Inr (case cert_pem of
                              None \<Rightarrow> fs1
                            | Some c \<Rightarrow> fs1(cert_path km \<mapsto> c)))))))"

text \<open>
  \<open>load_keystore\<close>, first the part of its \<open>try\<close> block that assigns nothing: reading the file,
  deriving the key, decrypting, stripping the padding and parsing the JSON inside.
\<close>

definition read_keystore_data ::
  "('sk, 'pk, 'cert) lib \<Rightarrow> string \<Rightarrow> string \<Rightarrow> exc + json" where
  "read_keystore_data L content password =
     bind_exc (json_loads L content) (\<lambda>keystore.
     bind_exc (bind_exc (getitem keystore ''salt'') (b64decode_value L)) (\<lambda>salt.
     bind_exc (bind_exc (getitem keystore ''iv'') (b64decode_value L)) (\<lambda>iv.
     bind_exc (bind_exc (getitem keystore ''data'') (b64decode_value L)) (\<lambda>encrypted_data.
     (let key = pbkdf2_hmac_sha256 L password salt
      in bind_exc (aes_cbc_decrypt L key iv encrypted_data) (\<lambda>decrypted_padded.
         bind_exc (last_byte decrypted_padded) (\<lambda>padding_length.
         bind_exc (bytes_decode L (drop_last decrypted_padded padding_length)) (json_loads L))))))))"

text \<open>\<open>'certificate' in keystore_data\<close>; by then \<open>keystore_data\<close> is known to be a dict.\<close>

fun has_key :: "json \<Rightarrow> string \<Rightarrow> bool" where
  "has_key (JObj kvs) k = (map_of kvs k \<noteq> None)"
| "has_key v k = False"

text \<open>
  \<open>load(base64.b64decode(keystore_data[key]))\<close> for one of the PEM loaders.
\<close>

definition pem_entry :: "('sk, 'pk, 'cert) lib \<Rightarrow> json \<Rightarrow> string \<Rightarrow> (bytes \<Rightarrow> exc + 'a) \<Rightarrow> exc + 'a" where
  "pem_entry L keystore_data key load =
     bind_exc (bind_exc (getitem keystore_data key) (b64decode_value L)) load"

text \<open>
  The rest of the \<open>try\<close> block assigns the three fields one after the other, so the result is
  paired with the key manager as it is when the block ends, normally or by an exception.
\<close>

definition load_keystore_try ::
  "('sk, 'pk, 'cert) lib \<Rightarrow> ('sk, 'pk, 'cert) key_manager \<Rightarrow> string \<Rightarrow> string
     \<Rightarrow> (exc + bool) \<times> ('sk, 'pk, 'cert) key_manager" where
  "load_keystore_try L km content password =
     (case read_keystore_data L content password of
        Inl e \<Rightarrow> (Inl e, km)
      | Inr keystore_data \<Rightarrow>
         (case pem_entry L keystore_data ''private_key'' (load_pem_private_key L) of
            Inl e \<Rightarrow> (Inl e, km)
          | Inr sk \<Rightarrow>
             (let km1 = km\<lparr>private_key := Some sk\<rparr>
              in case pem_entry L keystore_data ''public_key'' (load_pem_public_key L) of
                   Inl e \<Rightarrow> (Inl e, km1)
                 | Inr pk \<Rightarrow>
                    (let km2 = km1\<lparr>public_key := Some pk\<rparr>
                     in if has_key keystore_data ''certificate''
                        then (case pem_entry L keystore_data ''certificate''
                                     (load_pem_x509_certificate L) of
                                Inl e \<Rightarrow> (Inl e, km2)
                              | Inr c \<Rightarrow> (Inr True, km2\<lparr>certificate := Some c\<rparr>))
                        else (Inr True, km2\<lparr>certificate := None\<rparr>)))))"

definition load_keystore ::
  "('sk, 'pk, 'cert) lib \<Rightarrow> ('sk, 'pk, 'cert) key_manager \<Rightarrow> files \<Rightarrow> string
     \<Rightarrow> bool \<times> ('sk, 'pk, 'cert) key_manager" where
  "load_keystore L km fs password =
     (case fs (keystore_path km) of
        None \<Rightarrow> (False, km)
      | Some content \<Rightarrow>
         (case load_keystore_try L km content password of
            (Inr ok, km') \<Rightarrow> (ok, km')
          | (Inl e, km') \<Rightarrow> (False, km')))"

definition export_certificate_pem ::
  "('sk, 'pk, 'cert) lib \<Rightarrow> ('sk, 'pk, 'cert) key_manager \<Rightarrow> exc + string option" where
  "export_certificate_pem L km =
     (case certificate km of
        None \<Rightarrow> Inr None
      | Some c \<Rightarrow> bind_exc (bytes_decode L (cert_public_bytes_pem L c)) (\<lambda>pem. Inr (Some pem)))"

subsection \<open>The global revocation list\<close>

definition load_global_revoked ::
  "('sk, 'pk, 'cert) lib \<Rightarrow> ('sk, 'pk, 'cert) key_manager \<Rightarrow> files \<Rightarrow> exc + json" where
  "load_global_revoked L km fs =
     (case fs (global_revoked_path km) of
        Some content \<Rightarrow> json_loads L content
      | None \<Rightarrow> Inr (JObj [(''revoked'', JArr [])]))"

definition save_global_revoked ::
  "('sk, 'pk, 'cert) lib \<Rightarrow> ('sk, 'pk, 'cert) key_manager \<Rightarrow> files \<Rightarrow> json \<Rightarrow> files" where
  "save_global_revoked L km fs revoked_data = fs(global_revoked_path km \<mapsto> json_dumps L False revoked_data)"

text \<open>
  The loop \<open>for entry in ...: if entry['serial'] == serial_number: return ...\<close> of both
  \<open>revoke_certificate\<close> and \<open>is_revoked\<close>. \<open>==\<close> is equality of the JSON values (Python's
  differs only in \<open>True == 1\<close> and in ignoring the key order of dicts).
\<close>

fun serial_listed :: "json list \<Rightarrow> json \<Rightarrow> exc + bool" where
  "serial_listed [] serial_number = Inr False"
| "serial_listed (entry # entries) serial_number =
     bind_exc (getitem entry ''serial'') (\<lambda>s.
       if s = serial_number then Inr True else serial_listed entries serial_number)"

fun list_append :: "json \<Rightarrow> json \<Rightarrow> exc + json" where
  "list_append (JArr xs) x = Inr (JArr (xs @ [x]))"
| "list_append v x = Inl (Raise AttributeError
                            (quote (type_name v) @ '' object has no attribute '' @ quote ''append''))"

text \<open>The dict after the list under one of its keys was changed in place.\<close>

fun with_item :: "json \<Rightarrow> string \<Rightarrow> json \<Rightarrow> json" where
  "with_item (JObj kvs) k x = JObj (map (\<lambda>kv. if fst kv = k then (k, x) else kv) kvs)"
| "with_item v k x = v"

text \<open>The entry that \<open>revoke_certificate\<close> appends.\<close>

definition revocation_entry :: "string \<Rightarrow> json \<Rightarrow> json \<Rightarrow> json" where
  "revocation_entry utcnow serial_number username =
     JObj [(''serial'', serial_number),
           (''revoked_by'', if truthy username then username else JStr ''unknown''),
           (''timestamp'', JStr (utcnow @ ''Z''))]"

definition revoke_certificate ::
  "('sk, 'pk, 'cert) lib \<Rightarrow> ('sk, 'pk, 'cert) key_manager \<Rightarrow> files \<Rightarrow> string \<Rightarrow> json \<Rightarrow> json
     \<Rightarrow> exc + bool \<times> files" where
  "revoke_certificate L km fs utcnow serial_number username =
     bind_exc (load_global_revoked L km fs) (\<lambda>revoked.
     bind_exc (getitem revoked ''revoked'') (\<lambda>lst.
     bind_exc (iterate lst) (\<lambda>entries.
     bind_exc (serial_listed entries serial_number) (\<lambda>found.
       if found then Inr (False, fs)
       else bind_exc (list_append lst (revocation_entry utcnow serial_number username)) (\<lambda>lst'.
              Inr (True, save_global_revoked L km fs (with_item revoked ''revoked'' lst')))))))"

definition is_revoked ::
  "('sk, 'pk, 'cert) lib \<Rightarrow> ('sk, 'pk, 'cert) key_manager \<Rightarrow> files \<Rightarrow> json \<Rightarrow> exc + bool" where
  "is_revoked L km fs serial_number =
     bind_exc (load_global_revoked L km fs) (\<lambda>revoked.
     bind_exc (getitem revoked ''revoked'') (\<lambda>lst.
     bind_exc (iterate lst) (\<lambda>entries. serial_listed entries serial_number)))"

definition get_revoked_certificates ::
  "('sk, 'pk, 'cert) lib \<Rightarrow> ('sk, 'pk, 'cert) key_manager \<Rightarrow> files \<Rightarrow> exc + json" where
  "get_revoked_certificates L km fs =
     bind_exc (load_global_revoked L km fs) (\<lambda>revoked. getitem revoked ''revoked'')"

section \<open>CryptoManager\<close>

text \<open>
  What one call reads from outside the program: the bytes of \<open>os.urandom(32)\<close> and
  \<open>os.urandom(16)\<close>, the randomness of the two RSA paddings, and \<open>datetime.utcnow().isoformat()\<close>
  at encryption and at signing.
\<close>

record draws =
  urandom32 :: bytes
  urandom16 :: bytes
  oaep_seed :: bytes
  pss_salt :: bytes
  utcnow_encrypt :: string
  utcnow_sign :: string

type_synonym envelope = "string \<rightharpoonup> json"

definition encrypt_entry ::
  "('sk, 'pk, 'cert) lib \<Rightarrow> ('sk, 'pk, 'cert) key_manager \<Rightarrow> draws \<Rightarrow> string \<Rightarrow> exc + envelope" where
  "encrypt_entry L km d plaintext =
     (let aes_key = urandom32 d;
          iv = urandom16 d;
          padded_plaintext = pad16 plaintext
      in bind_exc (aes_cbc_encrypt L aes_key iv padded_plaintext) (\<lambda>ciphertext.
           case public_key km of
             None \<Rightarrow> Inl (none_has_no ''encrypt'')
           | Some pk \<Rightarrow>
               bind_exc (rsa_oaep_encrypt L pk (oaep_seed d) aes_key) (\<lambda>encrypted_aes_key.
                 Inr [''encrypted_key'' \<mapsto> JStr (b64encode L encrypted_aes_key),
                      ''iv'' \<mapsto> JStr (b64encode L iv),
                      ''ciphertext'' \<mapsto> JStr (b64encode L ciphertext),
                      ''timestamp'' \<mapsto> JStr (utcnow_encrypt d @ ''Z'')])))"

text \<open>The \<open>try\<close> block of \<open>decrypt_entry\<close>, and the handler that wraps whatever it raised.\<close>

definition decrypt_entry_try ::
  "('sk, 'pk, 'cert) lib \<Rightarrow> ('sk, 'pk, 'cert) key_manager \<Rightarrow> envelope \<Rightarrow> exc + string" where
  "decrypt_entry_try L km encrypted_data =
     bind_exc (bind_exc (dict_get encrypted_data ''encrypted_key'') (b64decode_value L)) (\<lambda>encrypted_aes_key.
     bind_exc (bind_exc (dict_get encrypted_data ''iv'') (b64decode_value L)) (\<lambda>iv.
     bind_exc (bind_exc (dict_get encrypted_data ''ciphertext'') (b64decode_value L)) (\<lambda>ciphertext.
       case private_key km of
         None \<Rightarrow> Inl (none_has_no ''decrypt'')
       | Some sk \<Rightarrow>
           bind_exc (rsa_oaep_decrypt L sk encrypted_aes_key) (\<lambda>aes_key.
           bind_exc (aes_cbc_decrypt L aes_key iv ciphertext) (\<lambda>padded_plaintext.
           bind_exc (last_byte padded_plaintext) (\<lambda>padding_length.
             bytes_decode L (drop_last padded_plaintext padding_length)))))))"

definition decrypt_entry ::
  "('sk, 'pk, 'cert) lib \<Rightarrow> ('sk, 'pk, 'cert) key_manager \<Rightarrow> envelope \<Rightarrow> exc + string" where
  "decrypt_entry L km encrypted_data =
     (case decrypt_entry_try L km encrypted_data of
        Inr plaintext \<Rightarrow> Inr plaintext
      | Inl e \<Rightarrow> Inl (Raise Exception (''Decryption failed: '' @ exc_message e)))"

text \<open>
  The structure that is signed. A \<open>str\<close> is encoded and, like \<open>bytes\<close>, enters as base64; any
  other value enters as it is.
\<close>

definition signed_structure :: "('sk, 'pk, 'cert) lib \<Rightarrow> json \<Rightarrow> json \<Rightarrow> json" where
  "signed_structure L data timestamp =
     JObj [(''data'', (case data of JStr b \<Rightarrow> JStr (b64encode L b) | v \<Rightarrow> v)),
           (''timestamp'', timestamp)]"

definition prepare_signed_data :: "('sk, 'pk, 'cert) lib \<Rightarrow> string \<Rightarrow> json \<Rightarrow> bytes" where
  "prepare_signed_data L utcnow data =
     json_dumps L True (signed_structure L data (JStr (utcnow @ ''Z'')))"

text \<open>
  \<open>sign_entry\<close>; \<open>prepared.decode()\<close> gives back the string that \<open>_prepare_signed_data\<close> encoded.
\<close>

definition sign_entry ::
  "('sk, 'pk, 'cert) lib \<Rightarrow> ('sk, 'pk, 'cert) key_manager \<Rightarrow> draws \<Rightarrow> json \<Rightarrow> exc + envelope" where
  "sign_entry L km d data =
     (let prepared = prepare_signed_data L (utcnow_sign d) data
      in case private_key km of
           None \<Rightarrow> Inl (none_has_no ''sign'')
         | Some sk \<Rightarrow>
             bind_exc (rsa_pss_sign L sk (pss_salt d) prepared) (\<lambda>signature.
             bind_exc (json_loads L prepared) (\<lambda>structure.
               (let cert_serial = get_certificate_serial L km
                in bind_exc (getitem structure ''timestamp'') (\<lambda>signed_timestamp.
                     Inr [''signature'' \<mapsto> JStr (b64encode L signature),
                          ''signed_timestamp'' \<mapsto> signed_timestamp,
                          ''cert_serial'' \<mapsto> cert_serial])))))"

text \<open>
  The \<open>try\<close> block of \<open>verify_signature\<close>. The freshness check at its end only prints a warning
  and swallows its own errors, so it does not appear; neither do the other \<open>print\<close> calls.
\<close>

definition verify_signature_try ::
  "('sk, 'pk, 'cert) lib \<Rightarrow> ('sk, 'pk, 'cert) key_manager \<Rightarrow> files \<Rightarrow> json \<Rightarrow> json \<Rightarrow> json \<Rightarrow> json
     \<Rightarrow> 'pk option \<Rightarrow> 'cert option \<Rightarrow> exc + bool \<times> bool" where
  "verify_signature_try L km fs data signature_b64 timestamp cert_serial public_key_arg certificate_arg =
     bind_exc (if truthy cert_serial then is_revoked L km fs cert_serial else Inr False) (\<lambda>revoked.
       (let prepared = json_dumps L True (signed_structure L data timestamp)
        in bind_exc (b64decode_value L signature_b64) (\<lambda>signature.
           bind_exc (case certificate_arg of
                       Some c \<Rightarrow> Inr (cert_public_key L c)
                     | None \<Rightarrow>
                        (case public_key_arg of
                           Some pk \<Rightarrow> Inr pk
                         | None \<Rightarrow>
                            (case public_key km of
                               Some pk \<Rightarrow> Inr pk
                             | None \<Rightarrow> Inl (none_has_no ''verify'')))) (\<lambda>pub_key.
           bind_exc (rsa_pss_verify L pub_key signature prepared) (\<lambda>u.
             Inr (True, revoked))))))"

definition verify_signature ::
  "('sk, 'pk, 'cert) lib \<Rightarrow> ('sk, 'pk, 'cert) key_manager \<Rightarrow> files \<Rightarrow> json \<Rightarrow> json \<Rightarrow> json \<Rightarrow> json
     \<Rightarrow> 'pk option \<Rightarrow> 'cert option \<Rightarrow> exc + bool \<times> bool" where
  "verify_signature L km fs data signature_b64 timestamp cert_serial public_key_arg certificate_arg =
     (case verify_signature_try L km fs data signature_b64 timestamp cert_serial
             public_key_arg certificate_arg of
        Inr r \<Rightarrow> Inr r
      | Inl e \<Rightarrow> if exc_type e = InvalidSignature then Inr (False, False) else Inr (False, False))"

definition encrypt_and_sign ::
  "('sk, 'pk, 'cert) lib \<Rightarrow> ('sk, 'pk, 'cert) key_manager \<Rightarrow> draws \<Rightarrow> string \<Rightarrow> exc + envelope" where
  "encrypt_and_sign L km d plaintext =
     bind_exc (encrypt_entry L km d plaintext) (\<lambda>encrypted.
     bind_exc (bind_exc (dict_get encrypted ''ciphertext'') (sign_entry L km d)) (\<lambda>signature_info.
     bind_exc (dict_get signature_info ''signature'') (\<lambda>sg.
     bind_exc (dict_get signature_info ''signed_timestamp'') (\<lambda>ts.
     bind_exc (dict_get signature_info ''cert_serial'') (\<lambda>cs.
       Inr (encrypted(''signature'' \<mapsto> sg, ''signed_timestamp'' \<mapsto> ts, ''cert_serial'' \<mapsto> cs)))))))"

definition verify_and_decrypt ::
  "('sk, 'pk, 'cert) lib \<Rightarrow> ('sk, 'pk, 'cert) key_manager \<Rightarrow> files \<Rightarrow> envelope
     \<Rightarrow> exc + string \<times> bool \<times> bool" where
  "verify_and_decrypt L km fs encrypted_data =
     bind_exc (if encrypted_data ''signature'' \<noteq> None \<and> encrypted_data ''signed_timestamp'' \<noteq> None
               then (let cert_serial = (case encrypted_data ''cert_serial'' of
                                          None \<Rightarrow> JNull | Some v \<Rightarrow> v)
                     in bind_exc (dict_get encrypted_data ''ciphertext'') (\<lambda>ct.
                        bind_exc (dict_get encrypted_data ''signature'') (\<lambda>sg.
                        bind_exc (dict_get encrypted_data ''signed_timestamp'') (\<lambda>ts.
                          verify_signature L km fs ct sg ts cert_serial None None))))
               else Inr (False, False)) (\<lambda>verdict.
     bind_exc (decrypt_entry L km encrypted_data) (\<lambda>plaintext.
       Inr (plaintext, fst verdict, snd verdict)))"

subsection \<open>Export and import\<close>

record package =
  entry_id :: json
  title :: json
  created :: json
  encrypted_data :: envelope
  signer_certificate :: string

definition export_entry ::
  "('sk, 'pk, 'cert) lib \<Rightarrow> ('sk, 'pk, 'cert) key_manager \<Rightarrow> json \<Rightarrow> (string \<rightharpoonup> json) \<Rightarrow> envelope
     \<Rightarrow> exc + package" where
  "export_entry L km eid meta env =
     bind_exc (export_certificate_pem L km) (\<lambda>cert_pem.
       case cert_pem of
         None \<Rightarrow> Inl (Raise ValueError ''No certificate available to export.'')
       | Some pem \<Rightarrow>
           if pem = [] then Inl (Raise ValueError ''No certificate available to export.'')
           else bind_exc (dict_get meta ''title'') (\<lambda>t.
                bind_exc (dict_get meta ''created'') (\<lambda>c.
                  Inr \<lparr>entry_id = eid, title = t, created = c, encrypted_data = env,
                       signer_certificate = pem\<rparr>)))"

text \<open>The result is the tuple \<open>(metadata, encrypted_data, sig_valid, is_revoked, cert)\<close>.\<close>

definition import_entry ::
  "('sk, 'pk, 'cert) lib \<Rightarrow> ('sk, 'pk, 'cert) key_manager \<Rightarrow> files \<Rightarrow> package
     \<Rightarrow> exc + (string \<rightharpoonup> json) \<times> envelope \<times> bool \<times> bool \<times> 'cert" where
  "import_entry L km fs pkg =
     bind_exc (load_pem_x509_certificate L (signer_certificate pkg)) (\<lambda>c.
       (let cert_serial = JStr (str_int (cert_serial_number L c))
        in bind_exc (is_revoked L km fs cert_serial) (\<lambda>rv.
           (let enc_data = encrypted_data pkg
            in bind_exc (dict_get enc_data ''ciphertext'') (\<lambda>ct.
               bind_exc (dict_get enc_data ''signature'') (\<lambda>sg.
               bind_exc (dict_get enc_data ''signed_timestamp'') (\<lambda>ts.
               bind_exc (verify_signature L km fs ct sg ts cert_serial None (Some c)) (\<lambda>verdict.
                 case cert_common_names L c of
                   [] \<Rightarrow> Inl (Raise IndexError ''list index out of range'')
                 | cn # rest \<Rightarrow>
                     Inr ([''title'' \<mapsto> title pkg, ''created'' \<mapsto> created pkg,
                           ''imported_from'' \<mapsto> JStr cn],
                          encrypted_data pkg, fst verdict, rv, c)))))))))"

section \<open>What the code relies on from the libraries\<close>

text \<open>
  The properties of the libraries that the theorems below assume, each where it is needed:
  base64 and JSON decode what they encoded; AES-CBC decrypts what it encrypted under a 32-byte key
  and a 16-byte IV when the data fills whole blocks; a private key unwraps the 32-byte keys wrapped
  for its public key; a public key accepts the signatures of its private key. The second clause of
  \<open>json_ok\<close> is the round trip with \<open>sort_keys=True\<close> of the one dict the code dumps that way,
  whose keys are already in order.
\<close>

definition b64_ok :: "('sk, 'pk, 'cert) lib \<Rightarrow> bool" where
  "b64_ok L = (\<forall>b. b64decode L (b64encode L b) = Inr b)"

definition json_ok :: "('sk, 'pk, 'cert) lib \<Rightarrow> bool" where
  "json_ok L =
     ((\<forall>v. json_loads L (json_dumps L False v) = Inr v) \<and>
      (\<forall>x t. json_loads L (json_dumps L True (JObj [(''data'', x), (''timestamp'', t)]))
               = Inr (JObj [(''data'', x), (''timestamp'', t)])))"

definition aes_ok :: "('sk, 'pk, 'cert) lib \<Rightarrow> bool" where
  "aes_ok L =
     (\<forall>k iv m. length k = 32 \<and> length iv = 16 \<and> length m mod 16 = 0 \<longrightarrow>
        (\<exists>c. aes_cbc_encrypt L k iv m = Inr c \<and> aes_cbc_decrypt L k iv c = Inr m))"

definition wraps :: "('sk, 'pk, 'cert) lib \<Rightarrow> 'pk \<Rightarrow> 'sk \<Rightarrow> bool" where
  "wraps L pk sk =
     (\<forall>seed k. length k = 32 \<longrightarrow>
        (\<exists>c. rsa_oaep_encrypt L pk seed k = Inr c \<and> rsa_oaep_decrypt L sk c = Inr k))"

definition signs_for :: "('sk, 'pk, 'cert) lib \<Rightarrow> 'sk \<Rightarrow> 'pk \<Rightarrow> bool" where
  "signs_for L sk pk =
     (\<forall>salt m. \<exists>s. rsa_pss_sign L sk salt m = Inr s \<and> rsa_pss_verify L pk s m = Inr ())"

section \<open>The ledger as a list of entries\<close>

text \<open>
  The entries of the ledger as the loops of \<open>revoke_certificate\<close> and \<open>is_revoked\<close> see them,
  the number of entries for a serial, and the invariant of the ledger: every entry has a
  serial and no serial occurs twice.
\<close>

definition ledger_entries ::
  "('sk, 'pk, 'cert) lib \<Rightarrow> ('sk, 'pk, 'cert) key_manager \<Rightarrow> files \<Rightarrow> exc + json list" where
  "ledger_entries L km fs = bind_exc (get_revoked_certificates L km fs) iterate"

definition count_serial :: "json \<Rightarrow> json list \<Rightarrow> nat" where
  "count_serial s es = length (filter (\<lambda>e. getitem e ''serial'' = Inr s) es)"

definition ledger_ok :: "json list \<Rightarrow> bool" where
  "ledger_ok es =
     ((\<forall>e \<in> set es. \<exists>v. getitem e ''serial'' = Inr v) \<and> distinct (map (\<lambda>e. getitem e ''serial'') es))"

section \<open>An idealised instance of the libraries\<close>

text \<open>
  A small executable instance on which the functions above can be run: a self-delimiting text
  format in place of JSON (every string character is preceded by \<open>c\<close>, integers are in unary),
  a marker in place of base64, a byte rotation in place of the block cipher, and symbolic RSA in
  which a ciphertext or signature names the key it was made for. \<open>sort_keys\<close> is ignored.
\<close>

fun ser_str :: "string \<Rightarrow> string" where
  "ser_str [] = ''.''"
| "ser_str (c # cs) = CHR ''c'' # c # ser_str cs"

fun ser_nat :: "nat \<Rightarrow> string" where
  "ser_nat 0 = ''.''"
| "ser_nat (Suc n) = CHR ''1'' # ser_nat n"

primrec ser :: "json \<Rightarrow> string"
and ser_items :: "json list \<Rightarrow> string"
and ser_members :: "(string \<times> json) list \<Rightarrow> string"
and ser_member :: "string \<times> json \<Rightarrow> string" where
  "ser JNull = ''n''"
| "ser (JBool b) = (if b then ''t'' else ''f'')"
| "ser (JInt i) = (if i < 0 then CHR ''-'' # ser_nat (nat (- i)) else CHR ''+'' # ser_nat (nat i))"
| "ser (JStr s) = CHR ''s'' # ser_str s"
| "ser (JArr xs) = CHR ''['' # ser_items xs"
| "ser (JObj kvs) = CHR ''{'' # ser_members kvs"
| "ser_items [] = '']''"
| "ser_items (x # xs) = CHR '','' # ser x @ ser_items xs"
| "ser_members [] = ''}''"
| "ser_members (kv # kvs) = CHR '':'' # ser_member kv @ ser_members kvs"
| "ser_member (k, v) = ser_str k @ ser v"

fun parse_str :: "string \<Rightarrow> (string \<times> string) option" where
  "parse_str [] = None"
| "parse_str (c # r) =
     (if c = CHR ''.'' then Some ([], r)
      else if c = CHR ''c'' then
        (case r of
           [] \<Rightarrow> None
         | d # r' \<Rightarrow> (case parse_str r' of None \<Rightarrow> None | Some (s, r'') \<Rightarrow> Some (d # s, r'')))
      else None)"

fun parse_nat :: "string \<Rightarrow> (nat \<times> string) option" where
  "parse_nat [] = None"
| "parse_nat (c # r) =
     (if c = CHR ''.'' then Some (0, r)
      else if c = CHR ''1'' then (case parse_nat r of None \<Rightarrow> None | Some (k, r') \<Rightarrow> Some (Suc k, r'))
      else None)"

fun parse_value :: "nat \<Rightarrow> string \<Rightarrow> (json \<times> string) option"
and parse_items :: "nat \<Rightarrow> string \<Rightarrow> (json list \<times> string) option"
and parse_members :: "nat \<Rightarrow> string \<Rightarrow> ((string \<times> json) list \<times> string) option" where
  "parse_value 0 s = None"
| "parse_value (Suc n) [] = None"
| "parse_value (Suc n) (c # r) =
     (if c = CHR ''n'' then Some (JNull, r)
      else if c = CHR ''t'' then Some (JBool True, r)
      else if c = CHR ''f'' then Some (JBool False, r)
      else if c = CHR ''+'' then (case parse_nat r of None \<Rightarrow> None | Some (k, r') \<Rightarrow> Some (JInt (int k), r'))
      else if c = CHR ''-'' then (case parse_nat r of None \<Rightarrow> None | Some (k, r') \<Rightarrow> Some (JInt (- int k), r'))
      else if c = CHR ''s'' then (case parse_str r of None \<Rightarrow> None | Some (s, r') \<Rightarrow> Some (JStr s, r'))
      else if c = CHR ''['' then (case parse_items n r of None \<Rightarrow> None | Some (xs, r') \<Rightarrow> Some (JArr xs, r'))
      else if c = CHR ''{'' then (case parse_members n r of None \<Rightarrow> None | Some (kvs, r') \<Rightarrow> Some (JObj kvs, r'))
      else None)"
| "parse_items 0 s = None"
| "parse_items (Suc n) [] = None"
| "parse_items (Suc n) (c # r) =
     (if c = CHR '']'' then Some ([], r)
      else if c = CHR '','' then
        (case parse_value n r of
           None \<Rightarrow> None
         | Some (x, r') \<Rightarrow> (case parse_items n r' of None \<Rightarrow> None | Some (xs, r'') \<Rightarrow> Some (x # xs, r'')))
      else None)"
| "parse_members 0 s = None"
| "parse_members (Suc n) [] = None"
| "parse_members (Suc n) (c # r) =
     (if c = CHR ''}'' then Some ([], r)
      else if c = CHR '':'' then
        (case parse_str r of
           None \<Rightarrow> None
         | Some (k, r') \<Rightarrow>
            (case parse_value n r' of
               None \<Rightarrow> None
             | Some (v, r'') \<Rightarrow>
                (case parse_members n r'' of None \<Rightarrow> None | Some (kvs, r3) \<Rightarrow> Some ((k, v) # kvs, r3))))
      else None)"

definition ideal_json_loads :: "string \<Rightarrow> exc + json" where
  "ideal_json_loads s = (case parse_value (length s) s of
                    Some (j, []) \<Rightarrow> Inr j
                  | _ \<Rightarrow> Inl (Raise JSONDecodeError ''Expecting value''))"


datatype ideal_sk = SK string
datatype ideal_pk = PK string
datatype ideal_cert = Cert int "string list" ideal_pk

fun sk_name :: "ideal_sk \<Rightarrow> string" where "sk_name (SK n) = n"
fun pk_name :: "ideal_pk \<Rightarrow> string" where "pk_name (PK n) = n"

definition ideal_b64encode :: "bytes \<Rightarrow> string" where
  "ideal_b64encode b = b @ ''=''"

definition ideal_b64decode :: "string \<Rightarrow> exc + bytes" where
  "ideal_b64decode s = (if s \<noteq> [] \<and> last s = CHR ''='' then Inr (butlast s)
                        else Inl (Raise BinasciiError ''Incorrect padding''))"

definition ideal_bytes_decode :: "bytes \<Rightarrow> exc + string" where
  "ideal_bytes_decode b = (if list_all (\<lambda>c. (of_char c :: nat) < 128) b then Inr b
                           else Inl (Raise UnicodeDecodeError ''invalid start byte''))"

definition shift_by :: "nat \<Rightarrow> char \<Rightarrow> char" where
  "shift_by a c = char_of (of_char c + a)"

definition key_shift :: "bytes \<Rightarrow> bytes \<Rightarrow> nat" where
  "key_shift k iv = (sum_list (map of_char k) + sum_list (map of_char iv)) mod 256"

definition aes_args :: "bytes \<Rightarrow> bytes \<Rightarrow> bytes \<Rightarrow> exc option" where
  "aes_args k iv m =
     (if length k \<noteq> 16 \<and> length k \<noteq> 24 \<and> length k \<noteq> 32 then Some (Raise ValueError ''Invalid key size for AES.'')
      else if length iv \<noteq> 16 then Some (Raise ValueError ''Invalid IV size for CBC.'')
      else if length m mod 16 \<noteq> 0
        then Some (Raise ValueError ''The length of the provided data is not a multiple of the block length.'')
      else None)"

definition ideal_aes_encrypt :: "bytes \<Rightarrow> bytes \<Rightarrow> bytes \<Rightarrow> exc + bytes" where
  "ideal_aes_encrypt k iv m =
     (case aes_args k iv m of Some e \<Rightarrow> Inl e | None \<Rightarrow> Inr (map (shift_by (key_shift k iv)) m))"

definition ideal_aes_decrypt :: "bytes \<Rightarrow> bytes \<Rightarrow> bytes \<Rightarrow> exc + bytes" where
  "ideal_aes_decrypt k iv c =
     (case aes_args k iv c of Some e \<Rightarrow> Inl e | None \<Rightarrow> Inr (map (shift_by (256 - key_shift k iv)) c))"

fun triple_of :: "json \<Rightarrow> (string \<times> string \<times> string) option" where
  "triple_of (JArr [JStr a, JStr b, JStr c]) = Some (a, b, c)"
| "triple_of v = None"

definition ideal_oaep_encrypt :: "ideal_pk \<Rightarrow> bytes \<Rightarrow> bytes \<Rightarrow> exc + bytes" where
  "ideal_oaep_encrypt pk seed m =
     (if length m > 190 then Inl (Raise ValueError ''Encryption failed'')
      else Inr (ser (JArr [JStr (pk_name pk), JStr seed, JStr m])))"

definition ideal_oaep_decrypt :: "ideal_sk \<Rightarrow> bytes \<Rightarrow> exc + bytes" where
  "ideal_oaep_decrypt sk c =
     (case bind_exc (ideal_json_loads c) (\<lambda>j. Inr (triple_of j)) of
        Inr (Some (n, seed, m)) \<Rightarrow>
          if n = sk_name sk then Inr m else Inl (Raise ValueError ''Decryption failed'')
      | _ \<Rightarrow> Inl (Raise ValueError ''Decryption failed''))"

definition ideal_pss_sign :: "ideal_sk \<Rightarrow> bytes \<Rightarrow> bytes \<Rightarrow> exc + bytes" where
  "ideal_pss_sign sk salt m = Inr (ser (JArr [JStr (sk_name sk), JStr salt, JStr m]))"

definition ideal_pss_verify :: "ideal_pk \<Rightarrow> bytes \<Rightarrow> bytes \<Rightarrow> exc + unit" where
  "ideal_pss_verify pk sg m =
     (case bind_exc (ideal_json_loads sg) (\<lambda>j. Inr (triple_of j)) of
        Inr (Some (n, salt, m')) \<Rightarrow>
          if n = pk_name pk \<and> m' = m then Inr () else Inl (Raise InvalidSignature [])
      | _ \<Rightarrow> Inl (Raise InvalidSignature []))"

definition ideal_generate :: "int \<Rightarrow> int \<Rightarrow> bytes \<Rightarrow> exc + ideal_sk" where
  "ideal_generate e key_size seed =
     (if e \<noteq> 3 \<and> e \<noteq> 65537 then Inl (Raise ValueError ''public_exponent must be either 3 or 65537'')
      else if key_size < 1024 then Inl (Raise ValueError ''key_size must be at least 1024-bits.'')
      else Inr (SK seed))"

definition ideal_pbkdf2 :: "string \<Rightarrow> bytes \<Rightarrow> bytes" where
  "ideal_pbkdf2 password salt = take 32 (password @ salt @ replicate 32 (CHR ''0''))"

fun pem_body :: "string \<Rightarrow> json \<Rightarrow> json option" where
  "pem_body label (JArr [JStr l, body]) = (if l = label then Some body else None)"
| "pem_body label v = None"

definition load_pem :: "string \<Rightarrow> bytes \<Rightarrow> exc + json" where
  "load_pem label b =
     (case bind_exc (ideal_json_loads b) (\<lambda>j. Inr (pem_body label j)) of
        Inr (Some body) \<Rightarrow> Inr body
      | _ \<Rightarrow> Inl (Raise ValueError ''Unable to load PEM file.''))"

fun strings_of :: "json list \<Rightarrow> string list option" where
  "strings_of [] = Some []"
| "strings_of (JStr s # xs) = map_option ((#) s) (strings_of xs)"
| "strings_of (v # xs) = None"

fun cert_of :: "json \<Rightarrow> ideal_cert option" where
  "cert_of (JArr [JInt serial, JArr cns, JStr n]) = map_option (\<lambda>ss. Cert serial ss (PK n)) (strings_of cns)"
| "cert_of v = None"

fun key_name_of :: "json \<Rightarrow> string option" where
  "key_name_of (JStr n) = Some n"
| "key_name_of v = None"

definition ideal_load_private :: "bytes \<Rightarrow> exc + ideal_sk" where
  "ideal_load_private b =
     bind_exc (load_pem ''PRIVATE KEY'' b) (\<lambda>body.
       case key_name_of body of Some n \<Rightarrow> Inr (SK n) | None \<Rightarrow> Inl (Raise ValueError ''Unable to load PEM file.''))"

definition ideal_load_public :: "bytes \<Rightarrow> exc + ideal_pk" where
  "ideal_load_public b =
     bind_exc (load_pem ''PUBLIC KEY'' b) (\<lambda>body.
       case key_name_of body of Some n \<Rightarrow> Inr (PK n) | None \<Rightarrow> Inl (Raise ValueError ''Unable to load PEM file.''))"

definition ideal_load_cert :: "bytes \<Rightarrow> exc + ideal_cert" where
  "ideal_load_cert b =
     bind_exc (load_pem ''CERTIFICATE'' b) (\<lambda>body.
       case cert_of body of Some c \<Rightarrow> Inr c | None \<Rightarrow> Inl (Raise ValueError ''Unable to load PEM file.''))"

fun ideal_cert_pem :: "ideal_cert \<Rightarrow> bytes" where
  "ideal_cert_pem (Cert serial cns pk) =
     ser (JArr [JStr ''CERTIFICATE'', JArr [JInt serial, JArr (map JStr cns), JStr (pk_name pk)]])"

fun ideal_cert_serial :: "ideal_cert \<Rightarrow> int" where "ideal_cert_serial (Cert serial cns pk) = serial"
fun ideal_cert_key :: "ideal_cert \<Rightarrow> ideal_pk" where "ideal_cert_key (Cert serial cns pk) = pk"
fun ideal_cert_names :: "ideal_cert \<Rightarrow> string list" where "ideal_cert_names (Cert serial cns pk) = cns"

definition ideal :: "(ideal_sk, ideal_pk, ideal_cert) lib" where
  "ideal =
     \<lparr>b64encode = ideal_b64encode,
      b64decode = ideal_b64decode,
      bytes_decode = ideal_bytes_decode,
      json_dumps = (\<lambda>sort_keys. ser),
      json_loads = ideal_json_loads,
      aes_cbc_encrypt = ideal_aes_encrypt,
      aes_cbc_decrypt = ideal_aes_decrypt,
      rsa_oaep_encrypt = ideal_oaep_encrypt,
      rsa_oaep_decrypt = ideal_oaep_decrypt,
      rsa_pss_sign = ideal_pss_sign,
      rsa_pss_verify = ideal_pss_verify,
      rsa_generate_private_key = ideal_generate,
      rsa_public_key = (\<lambda>sk. PK (sk_name sk)),
      pbkdf2_hmac_sha256 = ideal_pbkdf2,
      private_bytes_pem = (\<lambda>sk. ser (JArr [JStr ''PRIVATE KEY'', JStr (sk_name sk)])),
      public_bytes_pem = (\<lambda>pk. ser (JArr [JStr ''PUBLIC KEY'', JStr (pk_name pk)])),
      load_pem_private_key = ideal_load_private,
      load_pem_public_key = ideal_load_public,
      cert_public_bytes_pem = ideal_cert_pem,
      load_pem_x509_certificate = ideal_load_cert,
      cert_serial_number = ideal_cert_serial,
      cert_public_key = ideal_cert_key,
      cert_common_names = ideal_cert_names\<rparr>"


subsection \<open>Sample data\<close>

definition alice :: "(ideal_sk, ideal_pk, ideal_cert) key_manager" where
  "alice = \<lparr>keystore_path = ''users/alice/keystore.enc'', cert_path = ''users/alice/certificate.pem'',
            global_revoked_path = ''revoked_certificates.json'',
            private_key = Some (SK ''alice-key''), public_key = Some (PK ''alice-key''),
            certificate = Some (Cert 7 [''alice''] (PK ''alice-key''))\<rparr>"

definition draws0 :: draws where
  "draws0 = \<lparr>urandom32 = ''0123456789abcdef0123456789abcdef'', urandom16 = ''fedcba9876543210'',
             oaep_seed = ''seed'', pss_salt = ''salt'',
             utcnow_encrypt = ''2024-01-01T00:00:00'', utcnow_sign = ''2024-01-01T00:00:01''\<rparr>"

definition bob :: "(ideal_sk, ideal_pk, ideal_cert) key_manager" where
  "bob = \<lparr>keystore_path = ''users/bob/keystore.enc'', cert_path = ''users/bob/certificate.pem'',
          global_revoked_path = ''revoked_certificates.json'',
          private_key = Some (SK ''bob-key''), public_key = Some (PK ''bob-key''),
          certificate = None\<rparr>"

definition wrapped_key_for :: "string \<Rightarrow> json" where
  "wrapped_key_for n = JStr (b64encode ideal (ser (JArr [JStr n, JStr ''seed'', JStr (urandom32 draws0)])))"

definition env_wrong_key :: envelope where
  "env_wrong_key = [''encrypted_key'' \<mapsto> wrapped_key_for ''bob-key'',
                    ''iv'' \<mapsto> JStr (b64encode ideal (urandom16 draws0)),
                    ''ciphertext'' \<mapsto> JStr (b64encode ideal [])]"

definition env_empty_ciphertext :: envelope where
  "env_empty_ciphertext = [''encrypted_key'' \<mapsto> wrapped_key_for ''alice-key'',
                           ''iv'' \<mapsto> JStr (b64encode ideal (urandom16 draws0)),
                           ''ciphertext'' \<mapsto> JStr (b64encode ideal [])]"

definition meta0 :: "string \<rightharpoonup> json" where
  "meta0 = [''title'' \<mapsto> JStr ''Day one'', ''created'' \<mapsto> JStr ''2024-01-01T00:00:00'']"

definition alice_cert :: ideal_cert where
  "alice_cert = Cert 7 [''alice''] (PK ''alice-key'')"

definition hello_env :: envelope where
  "hello_env =
     [''encrypted_key'' \<mapsto> wrapped_key_for ''alice-key'',
      ''iv'' \<mapsto> JStr (b64encode ideal (urandom16 draws0)),
      ''ciphertext'' \<mapsto> JStr (b64encode ideal
         (map (shift_by (key_shift (urandom32 draws0) (urandom16 draws0))) (pad16 ''hello''))),
      ''timestamp'' \<mapsto> JStr ''2024-01-01T00:00:00Z'']"

definition forged_signature :: json where
  "forged_signature =
     JStr (b64encode ideal (ser (JArr [JStr ''bob-key'', JStr ''salt'',
       JStr (json_dumps ideal True (signed_structure ideal (JStr ''hello'') (JStr ''2024-01-01T00:00:01Z'')))])))"

definition ledger_path :: string where
  "ledger_path = ''revoked_certificates.json''"

definition ledger_after_alice :: files where
  "ledger_after_alice =
     [ledger_path \<mapsto> json_dumps ideal False
        (JObj [(''revoked'', JArr [revocation_entry ''2024-02-01T10:00:00'' (JStr ''7'') (JStr ''alice'')])])]"

definition hello_ciphertext :: json where
  "hello_ciphertext =
     JStr (b64encode ideal
       (map (shift_by (key_shift (urandom32 draws0) (urandom16 draws0))) (pad16 ''hello'')))"

definition hello_signature :: json where
  "hello_signature =
     JStr (b64encode ideal (ser (JArr [JStr ''alice-key'', JStr ''salt'',
       JStr (prepare_signed_data ideal ''2024-01-01T00:00:01'' hello_ciphertext)])))"

definition signed_env :: envelope where
  "signed_env = hello_env(''signature'' \<mapsto> hello_signature,
                          ''signed_timestamp'' \<mapsto> JStr ''2024-01-01T00:00:01Z'',
                          ''cert_serial'' \<mapsto> JStr ''7'')"

definition alice_fresh :: "(ideal_sk, ideal_pk, ideal_cert) key_manager" where
  "alice_fresh = alice\<lparr>private_key := None, public_key := None, certificate := None\<rparr>"

definition salt0 :: bytes where
  "salt0 = ''NaClNaClNaClNaCl''"

text \<open>
  The keystore that \<open>save_keystore\<close> writes for \<open>alice\<close> under the password \<open>correct horse\<close>,
  and a keystore under the same password whose encrypted JSON has a \<open>private_key\<close> entry and
  nothing else.
\<close>

definition keystore_text :: "string \<Rightarrow> json \<Rightarrow> string" where
  "keystore_text password keystore_data =
     json_dumps ideal False
       (JObj [(''salt'', JStr (b64encode ideal salt0)),
              (''iv'', JStr (b64encode ideal (urandom16 draws0))),
              (''data'', JStr (b64encode ideal
                 (map (shift_by (key_shift (pbkdf2_hmac_sha256 ideal password salt0) (urandom16 draws0)))
                    (pad16 (json_dumps ideal False keystore_data)))))])"

definition alice_keystore_data :: json where
  "alice_keystore_data =
     JObj [(''private_key'', JStr (b64encode ideal (private_bytes_pem ideal (SK ''alice-key'')))),
           (''public_key'', JStr (b64encode ideal (public_bytes_pem ideal (PK ''alice-key'')))),
           (''certificate'', JStr (b64encode ideal (cert_public_bytes_pem ideal alice_cert)))]"

definition private_only :: json where
  "private_only =
     JObj [(''private_key'', JStr (b64encode ideal (private_bytes_pem ideal (SK ''alice-key''))))]"

definition alice_keystore :: files where
  "alice_keystore = [keystore_path alice \<mapsto> keystore_text ''correct horse'' alice_keystore_data]"

definition truncated_keystore :: files where
  "truncated_keystore = [keystore_path alice \<mapsto> keystore_text ''correct horse'' private_only]"

section \<open>Properties\<close>

subsection \<open>Auxiliary facts\<close>

lemma bind_exc_Inr [simp]: "bind_exc (Inr x) f = f x"
  by (simp add: bind_exc_def)

lemma bind_exc_Inl [simp]: "bind_exc (Inl e) f = Inl e"
  by (simp add: bind_exc_def)

lemma bind_exc_eq_Inr:
  "bind_exc m f = Inr y \<longleftrightarrow> (\<exists>x. m = Inr x \<and> f x = Inr y)"
  by (cases m) auto

lemma pad16_length: "length (pad16 b) mod 16 = 0"
proof -
  have "(length b + (16 - length b mod 16)) mod 16 = 0"
    by presburger
  then show ?thesis by (simp add: pad16_def Let_def)
qed

lemma pad16_last_byte: "last_byte (pad16 b) = Inr (16 - length b mod 16)"
proof -
  let ?n = "16 - length b mod 16"
  have pos: "0 < ?n" and small: "?n < 256" by simp_all
  from pos have ne: "replicate ?n (char_of ?n) \<noteq> []" by simp
  have "last (b @ replicate ?n (char_of ?n)) = (char_of ?n :: char)"
    using pos by simp
  moreover have "of_char (char_of ?n :: char) = ?n"
    using small by simp
  ultimately show ?thesis using ne
    by (simp add: last_byte_def pad16_def Let_def)
qed

lemma pad16_drop_last: "drop_last (pad16 b) (16 - length b mod 16) = b"
proof -
  have "\<not> 16 \<le> length b mod 16" by (simp add: not_le)
  then show ?thesis by (simp add: drop_last_def pad16_def Let_def)
qed

lemma dict_get_Some: "d k = Some v \<Longrightarrow> dict_get d k = Inr v"
  by (simp add: dict_get_def)

lemma dict_get_None: "d k = None \<Longrightarrow> dict_get d k = Inl (Raise KeyError (quote k))"
  by (simp add: dict_get_def)

lemma b64decode_value_JStr: "b64_ok L \<Longrightarrow> b64decode_value L (JStr (b64encode L b)) = Inr b"
  by (simp add: b64decode_value_def b64_ok_def)

lemma parse_str_ser: "parse_str (ser_str s @ r) = Some (s, r)"
  by (induction s) auto

lemma parse_nat_ser: "parse_nat (ser_nat k @ r) = Some (k, r)"
  by (induction k) auto

lemma parse_value_ser: "length (ser j) \<le> n \<Longrightarrow> parse_value n (ser j @ r) = Some (j, r)"
proof (induction j arbitrary: n r)
  case JNull
  then show ?case by (cases n) auto
next
  case (JBool b)
  then show ?case by (cases n; cases b) auto
next
  case (JInt i)
  then show ?case by (cases n) (auto simp: parse_nat_ser split: if_splits)
next
  case (JStr s)
  then show ?case by (cases n) (auto simp: parse_str_ser)
next
  case (JArr xs)
  have items: "length (ser_items ys) \<le> m \<Longrightarrow> set ys \<subseteq> set xs \<Longrightarrow>
      parse_items m (ser_items ys @ r) = Some (ys, r)" for ys m
  proof (induction ys arbitrary: m)
    case Nil
    then show ?case by (cases m) auto
  next
    case (Cons y ys)
    then obtain m' where m: "m = Suc m'" by (cases m) auto
    have y: "parse_value m' (ser y @ rest) = Some (y, rest)" for rest
      using JArr.IH[of y m' rest] Cons.prems m by auto
    have ys: "parse_items m' (ser_items ys @ r) = Some (ys, r)"
      using Cons.IH[of m'] Cons.prems m by auto
    show ?case using y ys m by simp
  qed
  from JArr.prems obtain n' where n: "n = Suc n'" by (cases n) auto
  show ?case using items[of xs n'] JArr.prems n by simp
next
  case (JObj kvs)
  have members: "length (ser_members ys) \<le> m \<Longrightarrow> set ys \<subseteq> set kvs \<Longrightarrow>
      parse_members m (ser_members ys @ r) = Some (ys, r)" for ys m
  proof (induction ys arbitrary: m)
    case Nil
    then show ?case by (cases m) auto
  next
    case (Cons y ys)
    obtain k v where kv: "y = (k, v)" by (cases y)
    from Cons.prems obtain m' where m: "m = Suc m'" by (cases m) auto
    have v: "parse_value m' (ser v @ rest) = Some (v, rest)" for rest
      using JObj.IH[of y v m' rest] Cons.prems m kv by auto
    have ys: "parse_members m' (ser_members ys @ r) = Some (ys, r)"
      using Cons.IH[of m'] Cons.prems m by auto
    show ?case using v ys m kv by (simp add: parse_str_ser)
  qed
  from JObj.prems obtain n' where n: "n = Suc n'" by (cases n) auto
  show ?case using members[of kvs n'] JObj.prems n by simp
qed

lemma ideal_json_loads_ser: "ideal_json_loads (ser j) = Inr j"
  using parse_value_ser[of j "length (ser j)" "[]"] by (simp add: ideal_json_loads_def)



lemma ideal_json_ok: "json_ok ideal"
  by (simp add: json_ok_def ideal_def ideal_json_loads_ser del: ser.simps)

lemma ideal_b64_ok: "b64_ok ideal"
  by (simp add: b64_ok_def ideal_def ideal_b64encode_def ideal_b64decode_def)

lemma shift_by_inverse: "a < 256 \<Longrightarrow> shift_by (256 - a) (shift_by a c) = c"
proof -
  assume a: "a < 256"
  let ?x = "of_char c :: nat"
  have "((?x + a) mod 256 + (256 - a)) mod 256 = (?x + a + (256 - a)) mod 256"
    by (simp add: mod_add_left_eq)
  also have "?x + a + (256 - a) = ?x + 256"
    using a by simp
  also have "(?x + 256) mod 256 = ?x mod 256"
    by simp
  finally have "(char_of ((?x + a) mod 256 + (256 - a)) :: char) = char_of ?x"
    by (simp add: char_of_eq_iff take_bit_eq_mod)
  then show ?thesis by (simp add: shift_by_def)
qed

lemma ideal_aes_ok: "aes_ok ideal"
proof -
  have "map (shift_by (256 - key_shift k iv)) (map (shift_by (key_shift k iv)) m) = m" for k iv m
    by (simp add: shift_by_inverse key_shift_def map_idI)
  then show ?thesis
    by (simp add: aes_ok_def ideal_def ideal_aes_encrypt_def ideal_aes_decrypt_def aes_args_def)
qed

lemma ideal_wraps: "wraps ideal (PK n) (SK n)"
  by (simp add: wraps_def ideal_def ideal_oaep_encrypt_def ideal_oaep_decrypt_def ideal_json_loads_ser
      del: ser.simps)

lemma ideal_signs_for: "signs_for ideal (SK n) (PK n)"
  by (simp add: signs_for_def ideal_def ideal_pss_sign_def ideal_pss_verify_def ideal_json_loads_ser
      del: ser.simps)

subsection \<open>C1: decryption inverts encryption\<close>

text \<open>
  C1. For every plaintext string \<open>P\<close> (of any length: empty, a multiple of the 16-byte block
  size, or straddling it), \<open>decrypt_entry(encrypt_entry(P))\<close> returns \<open>P\<close>. The key manager
  holds a key pair whose private key unwraps what its public key wraps, the libraries invert
  what they encode, \<open>os.urandom\<close> returns as many bytes as asked, and \<open>P\<close> is text: decoding its
  bytes gives it back.
\<close>

theorem encrypt_decrypt_roundtrip:
  assumes keys: "public_key km = Some pk" "private_key km = Some sk" "wraps L pk sk"
    and lib: "aes_ok L" "b64_ok L"
    and rnd: "length (urandom32 d) = 32" "length (urandom16 d) = 16"
    and decodable: "bytes_decode L P = Inr P"
  shows "\<exists>env. encrypt_entry L km d P = Inr env \<and> decrypt_entry L km env = Inr P"
proof -
  from lib(1) rnd pad16_length[of P]
  have "\<exists>c. aes_cbc_encrypt L (urandom32 d) (urandom16 d) (pad16 P) = Inr c
           \<and> aes_cbc_decrypt L (urandom32 d) (urandom16 d) c = Inr (pad16 P)"
    unfolding aes_ok_def by simp
  then obtain c where c: "aes_cbc_encrypt L (urandom32 d) (urandom16 d) (pad16 P) = Inr c"
    and c': "aes_cbc_decrypt L (urandom32 d) (urandom16 d) c = Inr (pad16 P)"
    by blast
  from keys(3) rnd(1)
  obtain w where w: "rsa_oaep_encrypt L pk (oaep_seed d) (urandom32 d) = Inr w"
    and w': "rsa_oaep_decrypt L sk w = Inr (urandom32 d)"
    unfolding wraps_def by blast
  let ?env = "[''encrypted_key'' \<mapsto> JStr (b64encode L w),
               ''iv'' \<mapsto> JStr (b64encode L (urandom16 d)),
               ''ciphertext'' \<mapsto> JStr (b64encode L c),
               ''timestamp'' \<mapsto> JStr (utcnow_encrypt d @ ''Z'')]"
  have enc: "encrypt_entry L km d P = Inr ?env"
    by (simp add: encrypt_entry_def Let_def c keys(1) w)
  have "decrypt_entry_try L km ?env = Inr P"
    by (simp add: decrypt_entry_try_def dict_get_def b64decode_value_JStr[OF lib(2)] keys(2) w' c'
        pad16_last_byte pad16_drop_last decodable)
  then have "decrypt_entry L km ?env = Inr P"
    by (simp add: decrypt_entry_def)
  with enc show ?thesis by blast
qed

theorem encrypt_decrypt_roundtrip_witness:
  "public_key alice = Some (PK ''alice-key'') \<and> private_key alice = Some (SK ''alice-key'')
   \<and> wraps ideal (PK ''alice-key'') (SK ''alice-key'') \<and> aes_ok ideal \<and> b64_ok ideal
   \<and> length (urandom32 draws0) = 32 \<and> length (urandom16 draws0) = 16
   \<and> bytes_decode ideal ''sixteen byte msg'' = Inr ''sixteen byte msg''
   \<and> (\<exists>env. encrypt_entry ideal alice draws0 ''sixteen byte msg'' = Inr env
          \<and> decrypt_entry ideal alice env = Inr ''sixteen byte msg'')"
proof -
  have pk: "public_key alice = Some (PK ''alice-key'')" and sk: "private_key alice = Some (SK ''alice-key'')"
    by (simp_all add: alice_def)
  have r32: "length (urandom32 draws0) = 32" and r16: "length (urandom16 draws0) = 16"
    by (simp_all add: draws0_def)
  have dec: "bytes_decode ideal ''sixteen byte msg'' = Inr ''sixteen byte msg''"
    by (simp add: ideal_def ideal_bytes_decode_def)
  note ex = encrypt_decrypt_roundtrip[OF pk sk ideal_wraps ideal_aes_ok ideal_b64_ok r32 r16 dec]
  show ?thesis
    by (intro conjI pk sk ideal_wraps ideal_aes_ok ideal_b64_ok r32 r16 dec ex)
qed

subsection \<open>C9: the text of a decryption failure\<close>

lemma ideal_b64decode_value [simp]: "b64decode_value ideal (JStr (b64encode ideal b)) = Inr b"
  by (rule b64decode_value_JStr[OF ideal_b64_ok])

lemma ideal_unwrap:
  "rsa_oaep_decrypt ideal (SK n) (ser (JArr [JStr n', JStr seed, JStr k]))
     = (if n' = n then Inr k else Inl (Raise ValueError ''Decryption failed''))"
  by (simp add: ideal_def ideal_oaep_decrypt_def ideal_json_loads_ser del: ser.simps)

lemma try_wrong_key:
  "decrypt_entry_try ideal alice env_wrong_key = Inl (Raise ValueError ''Decryption failed'')"
  by (simp add: decrypt_entry_try_def env_wrong_key_def wrapped_key_for_def dict_get_def alice_def
      ideal_unwrap del: ser.simps)

lemma ideal_aes_decrypt_empty:
  "length k = 32 \<Longrightarrow> length iv = 16 \<Longrightarrow> aes_cbc_decrypt ideal k iv [] = Inr []"
  by (simp add: ideal_def ideal_aes_decrypt_def aes_args_def)

lemma try_empty_ciphertext:
  "decrypt_entry_try ideal alice env_empty_ciphertext = Inl (Raise IndexError ''index out of range'')"
  by (simp add: decrypt_entry_try_def env_empty_ciphertext_def wrapped_key_for_def dict_get_def alice_def
      ideal_unwrap ideal_aes_decrypt_empty draws0_def last_byte_def del: ser.simps)

text \<open>
  C9 says that the error text of a failing \<open>decrypt_entry\<close> is the same whichever sub-step
  failed. It is not: the handler appends \<open>str(e)\<close> of the error it caught. Two envelopes for
  the same key manager, one whose symmetric key was wrapped for somebody else and one whose
  ciphertext is empty, fail with different texts.
\<close>

theorem decrypt_failure_text_counterexample:
  "decrypt_entry ideal alice env_wrong_key = Inl (Raise Exception ''Decryption failed: Decryption failed'')
   \<and> decrypt_entry ideal alice env_empty_ciphertext
       = Inl (Raise Exception ''Decryption failed: index out of range'')
   \<and> decrypt_entry ideal alice env_wrong_key \<noteq> decrypt_entry ideal alice env_empty_ciphertext"
  by (simp add: decrypt_entry_def try_wrong_key try_empty_ciphertext)

text \<open>
  C9 as amended: when the \<open>try\<close> block of \<open>decrypt_entry\<close> fails with an error \<open>e\<close>, the
  function raises a plain \<open>Exception\<close> whose text is \<open>Decryption failed: \<close> followed by the
  text of \<open>e\<close>.
\<close>

theorem decrypt_failure_text:
  "decrypt_entry_try L km env = Inl e \<Longrightarrow>
     decrypt_entry L km env = Inl (Raise Exception (''Decryption failed: '' @ exc_message e))"
  by (simp add: decrypt_entry_def)

theorem decrypt_failure_text_witness:
  "decrypt_entry_try ideal alice env_wrong_key = Inl (Raise ValueError ''Decryption failed'')
   \<and> decrypt_entry ideal alice env_wrong_key
       = Inl (Raise Exception (''Decryption failed: '' @ exc_message (Raise ValueError ''Decryption failed'')))"
  using decrypt_failure_text[OF try_wrong_key] try_wrong_key by simp

subsection \<open>C5: key sizes\<close>

text \<open>
  C5 says that \<open>generate_key_pair\<close> rejects a key size below 2048 bits. The function has no
  check of its own; with a generator that accepts 1024 bits, as the library's does, it produces
  a 1024-bit key pair.
\<close>

theorem generate_key_pair_small_counterexample:
  "(1024 :: int) < 2048
   \<and> generate_key_pair ideal bob 1024 ''entropy''
       = Inr (bob\<lparr>private_key := Some (SK ''entropy''), public_key := Some (PK ''entropy'')\<rparr>)"
  by (simp add: generate_key_pair_def ideal_def ideal_generate_def)

text \<open>
  C5 as amended: \<open>generate_key_pair\<close> passes the requested size to the library's generator
  with public exponent 65537. When the generator returns a key, that key and its public key
  are stored; when the generator raises, so does \<open>generate_key_pair\<close>, with the same error.
\<close>

theorem generate_key_pair_delegates:
  "(rsa_generate_private_key L 65537 key_size seed = Inr sk \<longrightarrow>
      generate_key_pair L km key_size seed
        = Inr (km\<lparr>private_key := Some sk, public_key := Some (rsa_public_key L sk)\<rparr>))
   \<and> (rsa_generate_private_key L 65537 key_size seed = Inl e \<longrightarrow>
      generate_key_pair L km key_size seed = Inl e)"
  by (simp add: generate_key_pair_def)

theorem generate_key_pair_delegates_witness:
  "rsa_generate_private_key ideal 65537 2048 ''entropy'' = Inr (SK ''entropy'')
   \<and> generate_key_pair ideal bob 2048 ''entropy''
       = Inr (bob\<lparr>private_key := Some (SK ''entropy''),
                   public_key := Some (rsa_public_key ideal (SK ''entropy''))\<rparr>)
   \<and> rsa_generate_private_key ideal 65537 512 ''entropy''
       = Inl (Raise ValueError ''key_size must be at least 1024-bits.'')
   \<and> generate_key_pair ideal bob 512 ''entropy''
       = Inl (Raise ValueError ''key_size must be at least 1024-bits.'')"
proof -
  have ok: "rsa_generate_private_key ideal 65537 2048 ''entropy'' = Inr (SK ''entropy'')"
    by (simp add: ideal_def ideal_generate_def)
  have bad: "rsa_generate_private_key ideal 65537 512 ''entropy''
               = Inl (Raise ValueError ''key_size must be at least 1024-bits.'')"
    by (simp add: ideal_def ideal_generate_def)
  from generate_key_pair_delegates[of ideal 2048 "''entropy''" "SK ''entropy''" bob] ok
  have a: "generate_key_pair ideal bob 2048 ''entropy''
       = Inr (bob\<lparr>private_key := Some (SK ''entropy''),
                   public_key := Some (rsa_public_key ideal (SK ''entropy''))\<rparr>)"
    by blast
  from generate_key_pair_delegates[of ideal 512 "''entropy''" _ bob
      "Raise ValueError ''key_size must be at least 1024-bits.''"] bad
  have b: "generate_key_pair ideal bob 512 ''entropy''
       = Inl (Raise ValueError ''key_size must be at least 1024-bits.'')"
    by blast
  show ?thesis by (intro conjI ok a bad b)
qed

subsection \<open>C7: exporting needs a certificate\<close>

lemma alice_certificate: "certificate alice = Some alice_cert"
  by (simp add: alice_def alice_cert_def)

lemma alice_cert_pem_text:
  "bytes_decode ideal (cert_public_bytes_pem ideal alice_cert) = Inr (cert_public_bytes_pem ideal alice_cert)"
  by code_simp

lemma alice_cert_pem_nonempty: "cert_public_bytes_pem ideal alice_cert \<noteq> []"
  by (simp add: ideal_def alice_cert_def)

text \<open>
  C7. \<open>export_entry\<close> fails when the key manager holds no certificate; the code's error for
  this is \<open>ValueError("No certificate available to export.")\<close>. When a certificate is present
  (and its PEM text is readable and the metadata has a title and a creation time) the result
  bundles the entry id, the title, the creation time, the envelope and the certificate's PEM.
\<close>

theorem export_entry_needs_certificate:
  "(certificate km = None \<longrightarrow>
      export_entry L km eid meta env = Inl (Raise ValueError ''No certificate available to export.''))
   \<and> (certificate km = Some c \<and> bytes_decode L (cert_public_bytes_pem L c) = Inr pem \<and> pem \<noteq> []
        \<and> meta ''title'' = Some t \<and> meta ''created'' = Some cr \<longrightarrow>
      export_entry L km eid meta env
        = Inr \<lparr>entry_id = eid, title = t, created = cr, encrypted_data = env,
               signer_certificate = pem\<rparr>)"
  by (simp add: export_entry_def export_certificate_pem_def dict_get_def)

theorem export_entry_needs_certificate_witness:
  "certificate bob = None
   \<and> export_entry ideal bob (JInt 1) meta0 hello_env
       = Inl (Raise ValueError ''No certificate available to export.'')
   \<and> certificate alice = Some alice_cert
   \<and> export_entry ideal alice (JInt 1) meta0 hello_env
       = Inr \<lparr>entry_id = JInt 1, title = JStr ''Day one'', created = JStr ''2024-01-01T00:00:00'',
              encrypted_data = hello_env,
              signer_certificate = cert_public_bytes_pem ideal alice_cert\<rparr>"
proof -
  have nb: "certificate bob = None" by (simp add: bob_def)
  have t: "meta0 ''title'' = Some (JStr ''Day one'')"
    and c: "meta0 ''created'' = Some (JStr ''2024-01-01T00:00:00'')"
    by (simp_all add: meta0_def)
  from export_entry_needs_certificate[of bob ideal "JInt 1" meta0 hello_env] nb
  have a: "export_entry ideal bob (JInt 1) meta0 hello_env
       = Inl (Raise ValueError ''No certificate available to export.'')"
    by blast
  from export_entry_needs_certificate[of alice ideal "JInt 1" meta0 hello_env alice_cert
      "cert_public_bytes_pem ideal alice_cert" "JStr ''Day one''" "JStr ''2024-01-01T00:00:00''"]
    alice_certificate alice_cert_pem_text alice_cert_pem_nonempty t c
  have b: "export_entry ideal alice (JInt 1) meta0 hello_env
       = Inr \<lparr>entry_id = JInt 1, title = JStr ''Day one'', created = JStr ''2024-01-01T00:00:00'',
              encrypted_data = hello_env,
              signer_certificate = cert_public_bytes_pem ideal alice_cert\<rparr>"
    by blast
  show ?thesis by (intro conjI nb a alice_certificate b)
qed

subsection \<open>C10: envelopes without a signature\<close>

lemma ideal_aes_inverse:
  "length k = 32 \<Longrightarrow> length iv = 16 \<Longrightarrow> length m mod 16 = 0 \<Longrightarrow>
     aes_cbc_decrypt ideal k iv (map (shift_by (key_shift k iv)) m) = Inr m"
proof -
  have "map (shift_by (256 - key_shift k iv)) (map (shift_by (key_shift k iv)) m) = m"
    by (simp add: shift_by_inverse key_shift_def map_idI)
  moreover assume "length k = 32" "length iv = 16" "length m mod 16 = 0"
  ultimately show ?thesis
    by (simp add: ideal_def ideal_aes_decrypt_def aes_args_def)
qed

lemma pad16_strip: "bind_exc (last_byte (pad16 b)) (\<lambda>n. f (drop_last (pad16 b) n)) = f b"
  by (simp add: pad16_last_byte pad16_drop_last)

lemma decrypt_hello: "decrypt_entry ideal alice hello_env = Inr ''hello''"
proof -
  have k: "length (urandom32 draws0) = 32" and iv: "length (urandom16 draws0) = 16"
    by (simp_all add: draws0_def)
  have hello: "bytes_decode ideal ''hello'' = Inr ''hello''"
    by (simp add: ideal_def ideal_bytes_decode_def)
  have "decrypt_entry_try ideal alice hello_env = Inr ''hello''"
    by (simp add: decrypt_entry_try_def hello_env_def wrapped_key_for_def dict_get_def alice_def
        ideal_unwrap ideal_aes_inverse[OF k iv pad16_length] pad16_strip hello
        del: ser.simps)
  then show ?thesis by (simp add: decrypt_entry_def)
qed

text \<open>
  C10. When the envelope has no \<open>signature\<close> or no \<open>signed_timestamp\<close> field,
  \<open>verify_and_decrypt\<close> does not verify anything: it is \<open>decrypt_entry\<close> with the verdict
  \<open>valid = False\<close>, \<open>revoked = False\<close> attached, and raises only what \<open>decrypt_entry\<close> raises.
\<close>

theorem verify_and_decrypt_unsigned:
  "env ''signature'' = None \<or> env ''signed_timestamp'' = None \<Longrightarrow>
     verify_and_decrypt L km fs env
       = (case decrypt_entry L km env of
            Inl e \<Rightarrow> Inl e
          | Inr plaintext \<Rightarrow> Inr (plaintext, False, False))"
  by (auto simp: verify_and_decrypt_def split: sum.splits)

theorem verify_and_decrypt_unsigned_witness:
  "(hello_env ''signature'' = None \<or> hello_env ''signed_timestamp'' = None)
   \<and> verify_and_decrypt ideal alice Map.empty hello_env = Inr (''hello'', False, False)"
proof -
  have h: "hello_env ''signature'' = None \<or> hello_env ''signed_timestamp'' = None"
    by (simp add: hello_env_def)
  show ?thesis
    using verify_and_decrypt_unsigned[OF h, of ideal alice Map.empty] h decrypt_hello by simp
qed

subsection \<open>C3: verification never raises\<close>

text \<open>
  C3. \<open>verify_signature\<close> never lets an exception out: it always returns a pair, and whenever
  its \<open>try\<close> block raises, be it \<open>InvalidSignature\<close> or anything else, the pair is
  \<open>(False, False)\<close>.
\<close>

theorem verify_signature_never_raises:
  "(\<exists>v. verify_signature L km fs data sg ts cs pk c = Inr v)
   \<and> (\<forall>e. verify_signature_try L km fs data sg ts cs pk c = Inl e \<longrightarrow>
          verify_signature L km fs data sg ts cs pk c = Inr (False, False))"
  by (cases "verify_signature_try L km fs data sg ts cs pk c") (auto simp: verify_signature_def)

lemma try_forged:
  "verify_signature_try ideal alice Map.empty (JStr ''hello'') forged_signature
     (JStr ''2024-01-01T00:00:01Z'') JNull None None = Inl (Raise InvalidSignature [])"
  by (simp add: verify_signature_try_def forged_signature_def alice_def ideal_def ideal_pss_verify_def
      ideal_json_loads_ser b64decode_value_def ideal_b64decode_def ideal_b64encode_def del: ser.simps)

lemma try_no_signature:
  "verify_signature_try ideal alice Map.empty (JStr ''hello'') JNull
     (JStr ''2024-01-01T00:00:01Z'') JNull None None
   = Inl (Raise TypeError
            (''argument should be a bytes-like object or ASCII string, not '' @ quote ''NoneType''))"
  by (simp add: verify_signature_try_def b64decode_value_def)

theorem verify_signature_never_raises_witness:
  "verify_signature_try ideal alice Map.empty (JStr ''hello'') forged_signature
     (JStr ''2024-01-01T00:00:01Z'') JNull None None = Inl (Raise InvalidSignature [])
   \<and> verify_signature ideal alice Map.empty (JStr ''hello'') forged_signature
     (JStr ''2024-01-01T00:00:01Z'') JNull None None = Inr (False, False)
   \<and> verify_signature_try ideal alice Map.empty (JStr ''hello'') JNull
     (JStr ''2024-01-01T00:00:01Z'') JNull None None
     = Inl (Raise TypeError
              (''argument should be a bytes-like object or ASCII string, not '' @ quote ''NoneType''))
   \<and> verify_signature ideal alice Map.empty (JStr ''hello'') JNull
     (JStr ''2024-01-01T00:00:01Z'') JNull None None = Inr (False, False)"
proof -
  from verify_signature_never_raises[of ideal alice Map.empty "JStr ''hello''" forged_signature
      "JStr ''2024-01-01T00:00:01Z''" JNull None None] try_forged
  have a: "verify_signature ideal alice Map.empty (JStr ''hello'') forged_signature
     (JStr ''2024-01-01T00:00:01Z'') JNull None None = Inr (False, False)"
    by blast
  from verify_signature_never_raises[of ideal alice Map.empty "JStr ''hello''" JNull
      "JStr ''2024-01-01T00:00:01Z''" JNull None None] try_no_signature
  have b: "verify_signature ideal alice Map.empty (JStr ''hello'') JNull
     (JStr ''2024-01-01T00:00:01Z'') JNull None None = Inr (False, False)"
    by blast
  show ?thesis by (intro conjI try_forged a try_no_signature b)
qed

subsection \<open>C8: the revocation list\<close>

lemma serial_listed_True:
  "serial_listed es s = Inr True \<Longrightarrow> \<exists>e \<in> set es. getitem e ''serial'' = Inr s"
  by (induction es) (auto simp: bind_exc_eq_Inr split: if_splits)

lemma serial_listed_False:
  "serial_listed es s = Inr False \<Longrightarrow> \<forall>e \<in> set es. \<exists>v. getitem e ''serial'' = Inr v \<and> v \<noteq> s"
  by (induction es) (auto simp: bind_exc_eq_Inr split: if_splits)

lemma serial_listed_append_new:
  "serial_listed es s = Inr False \<Longrightarrow> getitem e ''serial'' = Inr s \<Longrightarrow>
     serial_listed (es @ [e]) s = Inr True"
  by (induction es) (auto simp: bind_exc_eq_Inr split: if_splits)

lemma serial_listed_append_keep:
  "serial_listed es s = Inr True \<Longrightarrow> serial_listed (es @ es2) s = Inr True"
  by (induction es) (auto simp: bind_exc_eq_Inr split: if_splits)

lemma getitem_Inr_dict: "getitem v k = Inr x \<Longrightarrow> \<exists>kvs. v = JObj kvs \<and> map_of kvs k = Some x"
  by (cases v) (auto split: option.splits)

lemma map_of_replace:
  "map_of kvs k = Some v \<Longrightarrow> map_of (map (\<lambda>kv. if fst kv = k then (k, x) else kv) kvs) k = Some x"
  by (induction kvs) (auto split: if_splits)

lemma getitem_with_item: "getitem v k = Inr y \<Longrightarrow> getitem (with_item v k x) k = Inr x"
  by (auto dest!: getitem_Inr_dict simp: map_of_replace)

lemma list_append_Inr: "list_append lst x = Inr lst' \<Longrightarrow> \<exists>xs. lst = JArr xs \<and> lst' = JArr (xs @ [x])"
  by (cases lst) auto

lemma load_after_save:
  "json_ok L \<Longrightarrow> load_global_revoked L km (save_global_revoked L km fs v) = Inr v"
  by (simp add: json_ok_def load_global_revoked_def save_global_revoked_def)

lemma revocation_entry_serial: "getitem (revocation_entry t s u) ''serial'' = Inr s"
  by (simp add: revocation_entry_def)

text \<open>What a successful call of \<open>revoke_certificate\<close> found and did.\<close>

lemma revoke_certificate_Inr:
  assumes "revoke_certificate L km fs t s u = Inr (b, fs')"
  shows "\<exists>revoked lst es.
           load_global_revoked L km fs = Inr revoked \<and> getitem revoked ''revoked'' = Inr lst
           \<and> iterate lst = Inr es
           \<and> ((\<not> b \<and> fs' = fs \<and> serial_listed es s = Inr True)
              \<or> (b \<and> serial_listed es s = Inr False \<and> lst = JArr es
                  \<and> fs' = save_global_revoked L km fs
                            (with_item revoked ''revoked'' (JArr (es @ [revocation_entry t s u])))))"
proof -
  from assms obtain revoked lst es found where
    r: "load_global_revoked L km fs = Inr revoked" and l: "getitem revoked ''revoked'' = Inr lst"
    and i: "iterate lst = Inr es" and f: "serial_listed es s = Inr found"
    and rest: "(if found then Inr (False, fs)
                else bind_exc (list_append lst (revocation_entry t s u)) (\<lambda>lst'.
                  Inr (True, save_global_revoked L km fs (with_item revoked ''revoked'' lst'))))
               = Inr (b, fs')"
    unfolding revoke_certificate_def bind_exc_eq_Inr by blast
  show ?thesis
  proof (cases found)
    case True
    with rest f r l i show ?thesis by auto
  next
    case False
    with rest obtain lst' where a: "list_append lst (revocation_entry t s u) = Inr lst'"
      and res: "b" "fs' = save_global_revoked L km fs (with_item revoked ''revoked'' lst')"
      by (auto simp: bind_exc_eq_Inr)
    from list_append_Inr[OF a] obtain xs where xs: "lst = JArr xs" "lst' = JArr (xs @ [revocation_entry t s u])"
      by blast
    with i have "es = xs" by simp
    with False f r l i res xs show ?thesis by auto
  qed
qed

lemma ledger_entries_eq:
  "load_global_revoked L km fs = Inr revoked \<Longrightarrow> getitem revoked ''revoked'' = Inr lst \<Longrightarrow>
     ledger_entries L km fs = iterate lst"
  by (simp add: ledger_entries_def get_revoked_certificates_def)

lemma ledger_entries_after_save:
  "json_ok L \<Longrightarrow> getitem revoked ''revoked'' = Inr lst \<Longrightarrow>
     ledger_entries L km (save_global_revoked L km fs (with_item revoked ''revoked'' (JArr xs))) = Inr xs"
  by (simp add: ledger_entries_def get_revoked_certificates_def load_after_save getitem_with_item)

lemma is_revoked_eq:
  "is_revoked L km fs s = bind_exc (ledger_entries L km fs) (\<lambda>es. serial_listed es s)"
  by (cases "load_global_revoked L km fs")
     (auto simp: is_revoked_def ledger_entries_def get_revoked_certificates_def bind_exc_def
       split: sum.splits)

lemma revoke_then_listed:
  assumes ok: "json_ok L" and r: "revoke_certificate L km fs t s u = Inr (b, fs')"
  shows "\<exists>es'. ledger_entries L km fs' = Inr es' \<and> serial_listed es' s = Inr True"
proof -
  from revoke_certificate_Inr[OF r] obtain revoked lst es where
    l: "load_global_revoked L km fs = Inr revoked" "getitem revoked ''revoked'' = Inr lst"
       "iterate lst = Inr es"
    and c: "(\<not> b \<and> fs' = fs \<and> serial_listed es s = Inr True)
              \<or> (b \<and> serial_listed es s = Inr False \<and> lst = JArr es
                  \<and> fs' = save_global_revoked L km fs
                            (with_item revoked ''revoked'' (JArr (es @ [revocation_entry t s u]))))"
    by blast
  from c show ?thesis
  proof
    assume "\<not> b \<and> fs' = fs \<and> serial_listed es s = Inr True"
    with l show ?thesis by (simp add: ledger_entries_eq)
  next
    assume a: "b \<and> serial_listed es s = Inr False \<and> lst = JArr es
                  \<and> fs' = save_global_revoked L km fs
                            (with_item revoked ''revoked'' (JArr (es @ [revocation_entry t s u])))"
    then have "ledger_entries L km fs' = Inr (es @ [revocation_entry t s u])"
      using ledger_entries_after_save[OF ok l(2)] by simp
    moreover have "serial_listed (es @ [revocation_entry t s u]) s = Inr True"
      using a by (simp add: serial_listed_append_new revocation_entry_serial)
    ultimately show ?thesis by blast
  qed
qed

lemma revoke_again:
  assumes ok: "json_ok L" and r: "revoke_certificate L km fs t s u = Inr (b, fs')"
  shows "revoke_certificate L km fs' t' s u' = Inr (False, fs')"
proof -
  from revoke_then_listed[OF ok r] obtain es' where
    e: "ledger_entries L km fs' = Inr es'" and s: "serial_listed es' s = Inr True"
    by blast
  from e obtain revoked lst where "load_global_revoked L km fs' = Inr revoked"
    "getitem revoked ''revoked'' = Inr lst" "iterate lst = Inr es'"
    by (auto simp: ledger_entries_def get_revoked_certificates_def bind_exc_eq_Inr)
  with s show ?thesis by (simp add: revoke_certificate_def)
qed

lemma revoke_extends:
  assumes ok: "json_ok L" and r: "revoke_certificate L km fs t s u = Inr (b, fs')"
  shows "\<exists>es. ledger_entries L km fs = Inr es
           \<and> ledger_entries L km fs' = Inr (if b then es @ [revocation_entry t s u] else es)
           \<and> serial_listed es s = Inr (\<not> b)"
proof -
  from revoke_certificate_Inr[OF r] obtain revoked lst es where
    l: "load_global_revoked L km fs = Inr revoked" "getitem revoked ''revoked'' = Inr lst"
       "iterate lst = Inr es"
    and c: "(\<not> b \<and> fs' = fs \<and> serial_listed es s = Inr True)
              \<or> (b \<and> serial_listed es s = Inr False \<and> lst = JArr es
                  \<and> fs' = save_global_revoked L km fs
                            (with_item revoked ''revoked'' (JArr (es @ [revocation_entry t s u]))))"
    by blast
  have e: "ledger_entries L km fs = Inr es"
    using l by (simp add: ledger_entries_eq)
  from c show ?thesis
  proof
    assume "\<not> b \<and> fs' = fs \<and> serial_listed es s = Inr True"
    with e show ?thesis by auto
  next
    assume a: "b \<and> serial_listed es s = Inr False \<and> lst = JArr es
                  \<and> fs' = save_global_revoked L km fs
                            (with_item revoked ''revoked'' (JArr (es @ [revocation_entry t s u])))"
    then have "ledger_entries L km fs' = Inr (es @ [revocation_entry t s u])"
      using ledger_entries_after_save[OF ok l(2)] by simp
    with a e show ?thesis by auto
  qed
qed

lemma count_distinct:
  "distinct (map f es) \<Longrightarrow> x \<in> f ` set es \<Longrightarrow> length (filter (\<lambda>e. f e = x) es) = 1"
proof (induction es)
  case Nil
  then show ?case by simp
next
  case (Cons a es)
  show ?case
  proof (cases "f a = x")
    case True
    with Cons.prems(1) have "\<forall>e \<in> set es. f e \<noteq> x" by (auto simp: image_iff)
    then have "filter (\<lambda>e. f e = x) es = []" by (simp add: filter_empty_conv)
    with True show ?thesis by simp
  next
    case False
    with Cons show ?thesis by auto
  qed
qed

lemma count_serial_listed:
  "ledger_ok es \<Longrightarrow> serial_listed es s = Inr True \<Longrightarrow> count_serial s es = 1"
proof -
  assume ok: "ledger_ok es" and l: "serial_listed es s = Inr True"
  from serial_listed_True[OF l] obtain e where "e \<in> set es" "getitem e ''serial'' = Inr s"
    by blast
  then have "Inr s \<in> (\<lambda>e. getitem e ''serial'') ` set es"
    by (metis image_eqI)
  moreover from ok have "distinct (map (\<lambda>e. getitem e ''serial'') es)"
    by (simp add: ledger_ok_def)
  ultimately show ?thesis
    unfolding count_serial_def by (rule count_distinct[rotated])
qed

lemma ledger_ok_append:
  "ledger_ok es \<Longrightarrow> serial_listed es s = Inr False \<Longrightarrow> ledger_ok (es @ [revocation_entry t s u])"
  by (auto simp: ledger_ok_def revocation_entry_serial dest!: serial_listed_False)

lemma is_revoked_kept:
  assumes ok: "json_ok L" and r: "revoke_certificate L km fs t s u = Inr (b, fs')"
    and l: "is_revoked L km fs s0 = Inr True"
  shows "is_revoked L km fs' s0 = Inr True"
proof -
  from revoke_extends[OF ok r] obtain es where
    e: "ledger_entries L km fs = Inr es"
    and e': "ledger_entries L km fs' = Inr (if b then es @ [revocation_entry t s u] else es)"
    by blast
  from l e have "serial_listed es s0 = Inr True" by (simp add: is_revoked_eq)
  then show ?thesis using e' by (simp add: is_revoked_eq serial_listed_append_keep)
qed

text \<open>
  C8. Revocation is idempotent and permanent. With a JSON library that reads back what it
  wrote: (1) after a call of \<open>revoke_certificate\<close> for a serial has returned, another call for
  that serial returns \<open>False\<close> (already revoked) and leaves the ledger file as it is; (2) if no
  serial was listed twice before, none is afterwards, and the revoked serial is listed exactly
  once; (3) every entry listed before a call is still listed after it, in the same place, and
  a serial that \<open>is_revoked\<close> reported stays reported; (4) a ledger that does not exist yet has
  no entries. \<open>revoke_certificate\<close> is the only function that writes the ledger.
\<close>

theorem revocation_idempotent_permanent:
  assumes "json_ok L"
  shows "(revoke_certificate L km fs t s u = Inr (b, fs1) \<longrightarrow>
            revoke_certificate L km fs1 t' s u' = Inr (False, fs1))
       \<and> (revoke_certificate L km fs t s u = Inr (b, fs1) \<and> ledger_entries L km fs = Inr es
            \<and> ledger_ok es \<longrightarrow>
            (\<exists>es1. ledger_entries L km fs1 = Inr es1 \<and> ledger_ok es1 \<and> count_serial s es1 = 1))
       \<and> (revoke_certificate L km fs t s u = Inr (b, fs1) \<and> ledger_entries L km fs = Inr es \<longrightarrow>
            (\<exists>new. ledger_entries L km fs1 = Inr (es @ new)))
       \<and> (revoke_certificate L km fs t s u = Inr (b, fs1) \<and> is_revoked L km fs s0 = Inr True \<longrightarrow>
            is_revoked L km fs1 s0 = Inr True)
       \<and> (fs (global_revoked_path km) = None \<longrightarrow> ledger_entries L km fs = Inr [] \<and> ledger_ok [])"
proof (intro conjI impI)
  assume "revoke_certificate L km fs t s u = Inr (b, fs1)"
  then show "revoke_certificate L km fs1 t' s u' = Inr (False, fs1)"
    by (rule revoke_again[OF assms])
next
  assume a: "revoke_certificate L km fs t s u = Inr (b, fs1) \<and> ledger_entries L km fs = Inr es
            \<and> ledger_ok es"
  from revoke_extends[OF assms, of km fs t s u b fs1] a
  have e1: "ledger_entries L km fs1 = Inr (if b then es @ [revocation_entry t s u] else es)"
    and f: "serial_listed es s = Inr (\<not> b)"
    by auto
  let ?es1 = "if b then es @ [revocation_entry t s u] else es"
  have ok1: "ledger_ok ?es1"
    using a f by (auto simp: ledger_ok_append)
  from revoke_then_listed[OF assms, of km fs t s u b fs1] a e1
  have "serial_listed ?es1 s = Inr True" by auto
  with ok1 have "count_serial s ?es1 = 1" by (rule count_serial_listed)
  with e1 ok1 show "\<exists>es1. ledger_entries L km fs1 = Inr es1 \<and> ledger_ok es1 \<and> count_serial s es1 = 1"
    by blast
next
  assume a: "revoke_certificate L km fs t s u = Inr (b, fs1) \<and> ledger_entries L km fs = Inr es"
  from revoke_extends[OF assms, of km fs t s u b fs1] a
  have "ledger_entries L km fs1 = Inr (es @ (if b then [revocation_entry t s u] else []))"
    by auto
  then show "\<exists>new. ledger_entries L km fs1 = Inr (es @ new)" by blast
next
  assume "revoke_certificate L km fs t s u = Inr (b, fs1) \<and> is_revoked L km fs s0 = Inr True"
  then show "is_revoked L km fs1 s0 = Inr True"
    using is_revoked_kept[OF assms] by blast
next
  assume "fs (global_revoked_path km) = None"
  then show "ledger_entries L km fs = Inr []"
    by (simp add: ledger_entries_def get_revoked_certificates_def load_global_revoked_def)
next
  show "ledger_ok []" by (simp add: ledger_ok_def)
qed

lemma alice_revokes:
  "revoke_certificate ideal alice Map.empty ''2024-02-01T10:00:00'' (JStr ''7'') (JStr ''alice'')
     = Inr (True, ledger_after_alice)"
  by (simp add: revoke_certificate_def load_global_revoked_def save_global_revoked_def alice_def
      ledger_after_alice_def ledger_path_def)

theorem revocation_idempotent_permanent_witness:
  "json_ok ideal
   \<and> global_revoked_path alice = ledger_path \<and> Map.empty ledger_path = (None :: string option)
   \<and> ledger_entries ideal alice Map.empty = Inr [] \<and> ledger_ok []
   \<and> revoke_certificate ideal alice Map.empty ''2024-02-01T10:00:00'' (JStr ''7'') (JStr ''alice'')
       = Inr (True, ledger_after_alice)
   \<and> revoke_certificate ideal alice ledger_after_alice ''2024-03-01T09:00:00'' (JStr ''7'') (JStr ''bob'')
       = Inr (False, ledger_after_alice)
   \<and> (\<exists>es1. ledger_entries ideal alice ledger_after_alice = Inr es1 \<and> ledger_ok es1
          \<and> count_serial (JStr ''7'') es1 = 1)"
proof -
  note inst = revocation_idempotent_permanent[OF ideal_json_ok, of alice Map.empty
      "''2024-02-01T10:00:00''" "JStr ''7''" "JStr ''alice''" True ledger_after_alice
      "''2024-03-01T09:00:00''" "JStr ''bob''" "[]" "JStr ''7''"]
  have p: "global_revoked_path alice = ledger_path" by (simp add: alice_def ledger_path_def)
  have n: "Map.empty ledger_path = (None :: string option)" by simp
  from inst p have e: "ledger_entries ideal alice Map.empty = Inr []" and o: "ledger_ok []"
    by simp_all
  from inst alice_revokes
  have again: "revoke_certificate ideal alice ledger_after_alice ''2024-03-01T09:00:00'' (JStr ''7'')
                 (JStr ''bob'') = Inr (False, ledger_after_alice)"
    by blast
  from inst alice_revokes e o
  have one: "\<exists>es1. ledger_entries ideal alice ledger_after_alice = Inr es1 \<and> ledger_ok es1
          \<and> count_serial (JStr ''7'') es1 = 1"
    by blast
  show ?thesis by (intro conjI ideal_json_ok p n e o alice_revokes again one)
qed

subsection \<open>C2: revocation does not touch validity\<close>

lemma str_nat_nonempty: "str_nat n \<noteq> []"
  by (subst str_nat.simps) simp

lemma str_int_nonempty: "str_int i \<noteq> []"
  by (simp add: str_int_def str_nat_nonempty)

lemma sign_entry_Inr:
  assumes "private_key km = Some sk" "signs_for L sk pk" "json_ok L"
  shows "\<exists>s. rsa_pss_verify L pk s
                (json_dumps L True (signed_structure L data (JStr (utcnow_sign d @ ''Z'')))) = Inr ()
            \<and> sign_entry L km d data
                = Inr [''signature'' \<mapsto> JStr (b64encode L s),
                       ''signed_timestamp'' \<mapsto> JStr (utcnow_sign d @ ''Z''),
                       ''cert_serial'' \<mapsto> get_certificate_serial L km]"
proof -
  let ?prepared = "json_dumps L True (signed_structure L data (JStr (utcnow_sign d @ ''Z'')))"
  from assms(2) obtain s where s: "rsa_pss_sign L sk (pss_salt d) ?prepared = Inr s"
    and v: "rsa_pss_verify L pk s ?prepared = Inr ()"
    unfolding signs_for_def by blast
  from assms(3) have l: "json_loads L ?prepared = Inr (signed_structure L data (JStr (utcnow_sign d @ ''Z'')))"
    by (simp add: json_ok_def signed_structure_def)
  have "sign_entry L km d data
          = Inr [''signature'' \<mapsto> JStr (b64encode L s),
                 ''signed_timestamp'' \<mapsto> JStr (utcnow_sign d @ ''Z''),
                 ''cert_serial'' \<mapsto> get_certificate_serial L km]"
    using s l by (simp add: sign_entry_def prepare_signed_data_def assms(1) Let_def signed_structure_def)
  with v show ?thesis by blast
qed

lemma verify_signature_valid:
  assumes "rsa_pss_verify L pk s (json_dumps L True (signed_structure L data ts)) = Inr ()"
    and "b64_ok L"
    and "(case c_arg of Some c \<Rightarrow> cert_public_key L c
          | None \<Rightarrow> (case pk_arg of Some k \<Rightarrow> k | None \<Rightarrow> the (public_key km))) = pk"
    and "c_arg = None \<and> pk_arg = None \<longrightarrow> public_key km \<noteq> None"
    and "(if truthy cs then is_revoked L km fs cs else Inr False) = Inr r"
  shows "verify_signature L km fs data (JStr (b64encode L s)) ts cs pk_arg c_arg = Inr (True, r)"
proof -
  have "verify_signature_try L km fs data (JStr (b64encode L s)) ts cs pk_arg c_arg = Inr (True, r)"
    using assms
    by (auto simp: verify_signature_try_def b64decode_value_JStr Let_def split: option.splits)
  then show ?thesis by (simp add: verify_signature_def)
qed

text \<open>
  C2. Let the key manager hold a private key, the public key that accepts its signatures, and
  a certificate. Whatever data \<open>sign_entry\<close> is given, it returns a signature, the signed
  timestamp and the certificate's serial, and \<open>verify_signature\<close> on the data and these three
  returns \<open>valid = True\<close> together with what \<open>is_revoked\<close> says about the serial:
  \<open>revoked = False\<close> while the serial is not in the ledger, and \<open>valid = True\<close>,
  \<open>revoked = True\<close> once \<open>revoke_certificate\<close> has been called for it.
\<close>

theorem signature_valid_whatever_revocation:
  assumes "private_key km = Some sk" "public_key km = Some pk" "certificate km = Some c"
    and "signs_for L sk pk" "b64_ok L" "json_ok L"
  shows "\<exists>sg ts cs.
           sign_entry L km d data
             = Inr [''signature'' \<mapsto> sg, ''signed_timestamp'' \<mapsto> ts, ''cert_serial'' \<mapsto> cs]
           \<and> cs = JStr (str_int (cert_serial_number L c))
           \<and> (\<forall>fs. is_revoked L km fs cs = Inr False \<longrightarrow>
                 verify_signature L km fs data sg ts cs None None = Inr (True, False))
           \<and> (\<forall>fs t u b fs'. revoke_certificate L km fs t cs u = Inr (b, fs') \<longrightarrow>
                 verify_signature L km fs' data sg ts cs None None = Inr (True, True))
           \<and> (\<forall>fs r. is_revoked L km fs cs = Inr r \<longrightarrow>
                 verify_signature L km fs data sg ts cs None None = Inr (True, r))"
proof -
  let ?ts = "JStr (utcnow_sign d @ ''Z'')"
  let ?cs = "JStr (str_int (cert_serial_number L c))"
  from sign_entry_Inr[OF assms(1,4,6), of data d] obtain s where
    v: "rsa_pss_verify L pk s (json_dumps L True (signed_structure L data ?ts)) = Inr ()"
    and sg: "sign_entry L km d data
               = Inr [''signature'' \<mapsto> JStr (b64encode L s), ''signed_timestamp'' \<mapsto> ?ts,
                      ''cert_serial'' \<mapsto> ?cs]"
    by (auto simp: get_certificate_serial_def assms(3))
  have t: "truthy ?cs" by (simp add: str_int_nonempty)
  have ver: "verify_signature L km fs data (JStr (b64encode L s)) ?ts ?cs None None = Inr (True, r)"
    if "is_revoked L km fs ?cs = Inr r" for fs r
    using that t by (intro verify_signature_valid[OF v assms(5)]) (simp_all add: assms(2))
  have rev: "is_revoked L km fs' ?cs = Inr True"
    if "revoke_certificate L km fs t ?cs u = Inr (b, fs')" for fs t u b fs'
    using revoke_then_listed[OF assms(6) that] by (auto simp: is_revoked_eq)
  show ?thesis
    using sg ver rev by blast
qed

lemma alice_serial: "str_int (cert_serial_number ideal alice_cert) = ''7''"
  by code_simp

lemma fresh_ledger_not_revoked: "is_revoked ideal alice Map.empty (JStr ''7'') = Inr False"
  by (simp add: is_revoked_def load_global_revoked_def alice_def)

theorem signature_valid_whatever_revocation_witness:
  "private_key alice = Some (SK ''alice-key'') \<and> public_key alice = Some (PK ''alice-key'')
   \<and> certificate alice = Some alice_cert
   \<and> signs_for ideal (SK ''alice-key'') (PK ''alice-key'') \<and> b64_ok ideal \<and> json_ok ideal
   \<and> is_revoked ideal alice Map.empty (JStr ''7'') = Inr False
   \<and> revoke_certificate ideal alice Map.empty ''2024-02-01T10:00:00'' (JStr ''7'') (JStr ''alice'')
       = Inr (True, ledger_after_alice)
   \<and> (\<exists>sg ts.
         sign_entry ideal alice draws0 (JStr ''hello'')
           = Inr [''signature'' \<mapsto> sg, ''signed_timestamp'' \<mapsto> ts, ''cert_serial'' \<mapsto> JStr ''7'']
         \<and> verify_signature ideal alice Map.empty (JStr ''hello'') sg ts (JStr ''7'') None None
             = Inr (True, False)
         \<and> verify_signature ideal alice ledger_after_alice (JStr ''hello'') sg ts (JStr ''7'') None None
             = Inr (True, True))"
proof -
  have sk: "private_key alice = Some (SK ''alice-key'')"
    and pk: "public_key alice = Some (PK ''alice-key'')"
    by (simp_all add: alice_def)
  from signature_valid_whatever_revocation[OF sk pk alice_certificate ideal_signs_for ideal_b64_ok
      ideal_json_ok, of draws0 "JStr ''hello''"]
  obtain sg ts where
    s: "sign_entry ideal alice draws0 (JStr ''hello'')
          = Inr [''signature'' \<mapsto> sg, ''signed_timestamp'' \<mapsto> ts, ''cert_serial'' \<mapsto> JStr ''7'']"
    and a: "\<forall>fs. is_revoked ideal alice fs (JStr ''7'') = Inr False \<longrightarrow>
              verify_signature ideal alice fs (JStr ''hello'') sg ts (JStr ''7'') None None = Inr (True, False)"
    and b: "\<forall>fs t u b fs'. revoke_certificate ideal alice fs t (JStr ''7'') u = Inr (b, fs') \<longrightarrow>
              verify_signature ideal alice fs' (JStr ''hello'') sg ts (JStr ''7'') None None = Inr (True, True)"
    unfolding alice_serial by blast
  from a fresh_ledger_not_revoked
  have v1: "verify_signature ideal alice Map.empty (JStr ''hello'') sg ts (JStr ''7'') None None
              = Inr (True, False)"
    by blast
  from b alice_revokes
  have v2: "verify_signature ideal alice ledger_after_alice (JStr ''hello'') sg ts (JStr ''7'') None None
              = Inr (True, True)"
    by blast
  from s v1 v2 have ex: "\<exists>sg ts.
         sign_entry ideal alice draws0 (JStr ''hello'')
           = Inr [''signature'' \<mapsto> sg, ''signed_timestamp'' \<mapsto> ts, ''cert_serial'' \<mapsto> JStr ''7'']
         \<and> verify_signature ideal alice Map.empty (JStr ''hello'') sg ts (JStr ''7'') None None
             = Inr (True, False)
         \<and> verify_signature ideal alice ledger_after_alice (JStr ''hello'') sg ts (JStr ''7'') None None
             = Inr (True, True)"
    by blast
  show ?thesis
    by (intro conjI sk pk alice_certificate ideal_signs_for ideal_b64_ok ideal_json_ok
        fresh_ledger_not_revoked alice_revokes ex)
qed

subsection \<open>C6: import after export\<close>

lemma encrypt_and_sign_Inr:
  assumes e: "encrypt_and_sign L km d P = Inr env"
    and k: "private_key km = Some sk" "signs_for L sk pk" "json_ok L"
  shows "\<exists>ct s. env ''ciphertext'' = Some ct
           \<and> env ''signature'' = Some (JStr (b64encode L s))
           \<and> env ''signed_timestamp'' = Some (JStr (utcnow_sign d @ ''Z''))
           \<and> rsa_pss_verify L pk s
                (json_dumps L True (signed_structure L ct (JStr (utcnow_sign d @ ''Z'')))) = Inr ()"
proof -
  from e obtain encrypted ct si sg ts cs where
    c: "dict_get encrypted ''ciphertext'' = Inr ct" and si: "sign_entry L km d ct = Inr si"
    and g: "dict_get si ''signature'' = Inr sg" "dict_get si ''signed_timestamp'' = Inr ts"
    and env: "env = encrypted(''signature'' \<mapsto> sg, ''signed_timestamp'' \<mapsto> ts, ''cert_serial'' \<mapsto> cs)"
    unfolding encrypt_and_sign_def bind_exc_eq_Inr by auto
  from sign_entry_Inr[OF k, of ct d] si obtain s where
    v: "rsa_pss_verify L pk s
          (json_dumps L True (signed_structure L ct (JStr (utcnow_sign d @ ''Z'')))) = Inr ()"
    and si': "si = [''signature'' \<mapsto> JStr (b64encode L s),
                    ''signed_timestamp'' \<mapsto> JStr (utcnow_sign d @ ''Z''),
                    ''cert_serial'' \<mapsto> get_certificate_serial L km]"
    by auto
  from g si' have sg: "sg = JStr (b64encode L s)" and ts: "ts = JStr (utcnow_sign d @ ''Z'')"
    by (simp_all add: dict_get_def)
  from c have "encrypted ''ciphertext'' = Some ct"
    by (simp add: dict_get_def split: option.splits)
  with env sg ts v show ?thesis by auto
qed

text \<open>
  C6. Let the exporter hold a private key and a certificate for the public key that accepts
  its signatures, with a certificate whose PEM text loads back to it and which names its
  subject. For every envelope that the exporter's \<open>encrypt_and_sign\<close> produced,
  \<open>export_entry\<close> succeeds and \<open>import_entry\<close> on the package, by any key manager whose ledger
  can be read, returns \<open>sig_valid = True\<close>, the envelope, and a certificate with the exporter's
  serial. Nothing is assumed about the keys of the importing key manager \<open>km'\<close>: the signature is
  checked with the key of the certificate in the package.
\<close>

theorem import_of_export:
  assumes exporter: "private_key km = Some sk" "certificate km = Some c"
      "signs_for L sk (cert_public_key L c)"
    and pem: "bytes_decode L (cert_public_bytes_pem L c) = Inr pem" "pem \<noteq> []"
      "load_pem_x509_certificate L pem = Inr c"
    and cn: "cert_common_names L c \<noteq> []"
    and lib: "b64_ok L" "json_ok L"
    and env: "encrypt_and_sign L km d P = Inr env"
    and meta: "meta ''title'' = Some t" "meta ''created'' = Some cr"
    and ledger: "is_revoked L km' fs' (JStr (str_int (cert_serial_number L c))) = Inr rv"
  shows "\<exists>pkg m c'.
           export_entry L km eid meta env = Inr pkg
           \<and> import_entry L km' fs' pkg = Inr (m, env, True, rv, c')
           \<and> cert_serial_number L c' = cert_serial_number L c
           \<and> m ''title'' = Some t \<and> m ''created'' = Some cr"
proof -
  let ?pkg = "\<lparr>entry_id = eid, title = t, created = cr, encrypted_data = env,
               signer_certificate = pem\<rparr>"
  let ?cs = "JStr (str_int (cert_serial_number L c))"
  have ex: "export_entry L km eid meta env = Inr ?pkg"
    by (simp add: export_entry_def export_certificate_pem_def exporter(2) pem(1,2) meta dict_get_def)
  from encrypt_and_sign_Inr[OF env exporter(1,3) lib(2)] obtain ct s where
    f: "env ''ciphertext'' = Some ct" "env ''signature'' = Some (JStr (b64encode L s))"
       "env ''signed_timestamp'' = Some (JStr (utcnow_sign d @ ''Z''))"
    and v: "rsa_pss_verify L (cert_public_key L c) s
              (json_dumps L True (signed_structure L ct (JStr (utcnow_sign d @ ''Z'')))) = Inr ()"
    by blast
  have ver: "verify_signature L km' fs' ct (JStr (b64encode L s)) (JStr (utcnow_sign d @ ''Z'')) ?cs
               None (Some c) = Inr (True, rv)"
    by (rule verify_signature_valid[OF v lib(1)]) (simp_all add: str_int_nonempty ledger)
  from cn obtain n ns where n: "cert_common_names L c = n # ns"
    by (cases "cert_common_names L c") auto
  have im: "import_entry L km' fs' ?pkg
              = Inr ([''title'' \<mapsto> t, ''created'' \<mapsto> cr, ''imported_from'' \<mapsto> JStr n],
                     env, True, rv, c)"
    by (simp add: import_entry_def pem(3) Let_def ledger f dict_get_def ver n)
  from ex im show ?thesis by auto
qed

lemma encrypt_hello: "encrypt_entry ideal alice draws0 ''hello'' = Inr hello_env"
proof -
  have a: "aes_cbc_encrypt ideal (urandom32 draws0) (urandom16 draws0) (pad16 ''hello'')
             = Inr (map (shift_by (key_shift (urandom32 draws0) (urandom16 draws0))) (pad16 ''hello''))"
    by (simp add: ideal_def ideal_aes_encrypt_def aes_args_def pad16_length draws0_def)
  have w: "rsa_oaep_encrypt ideal (PK ''alice-key'') (oaep_seed draws0) (urandom32 draws0)
             = Inr (ser (JArr [JStr ''alice-key'', JStr ''seed'', JStr (urandom32 draws0)]))"
    by (simp add: ideal_def ideal_oaep_encrypt_def draws0_def del: ser.simps)
  have p: "public_key alice = Some (PK ''alice-key'')" by (simp add: alice_def)
  have t: "utcnow_encrypt draws0 @ ''Z'' = ''2024-01-01T00:00:00Z''" by (simp add: draws0_def)
  show ?thesis
    by (simp add: encrypt_entry_def Let_def a w p t hello_env_def wrapped_key_for_def del: ser.simps)
qed

lemma sign_hello:
  "sign_entry ideal alice draws0 hello_ciphertext
     = Inr [''signature'' \<mapsto> hello_signature,
            ''signed_timestamp'' \<mapsto> JStr ''2024-01-01T00:00:01Z'',
            ''cert_serial'' \<mapsto> JStr ''7'']"
proof -
  have k: "private_key alice = Some (SK ''alice-key'')" by (simp add: alice_def)
  have u: "utcnow_sign draws0 = ''2024-01-01T00:00:01''" and sl: "pss_salt draws0 = ''salt''"
    by (simp_all add: draws0_def)
  have s: "rsa_pss_sign ideal (SK ''alice-key'') ''salt'' m
             = Inr (ser (JArr [JStr ''alice-key'', JStr ''salt'', JStr m]))" for m
    by (simp add: ideal_def ideal_pss_sign_def del: ser.simps)
  have l: "json_loads ideal (prepare_signed_data ideal ''2024-01-01T00:00:01'' hello_ciphertext)
             = Inr (signed_structure ideal hello_ciphertext (JStr ''2024-01-01T00:00:01Z''))"
    using ideal_json_ok by (simp add: json_ok_def prepare_signed_data_def signed_structure_def)
  have c: "get_certificate_serial ideal alice = JStr ''7''"
    using alice_serial by (simp add: get_certificate_serial_def alice_certificate)
  show ?thesis
    by (simp add: sign_entry_def Let_def k u sl s l c hello_signature_def signed_structure_def)
qed

lemma encrypt_and_sign_hello: "encrypt_and_sign ideal alice draws0 ''hello'' = Inr signed_env"
proof -
  let ?si = "[''signature'' \<mapsto> hello_signature,
              ''signed_timestamp'' \<mapsto> JStr ''2024-01-01T00:00:01Z'',
              ''cert_serial'' \<mapsto> JStr ''7'']"
  have c: "dict_get hello_env ''ciphertext'' = Inr hello_ciphertext"
    by (simp add: dict_get_def hello_env_def hello_ciphertext_def)
  have g: "dict_get ?si ''signature'' = Inr hello_signature"
    "dict_get ?si ''signed_timestamp'' = Inr (JStr ''2024-01-01T00:00:01Z'')"
    "dict_get ?si ''cert_serial'' = Inr (JStr ''7'')"
    by (simp_all add: dict_get_def)
  show ?thesis
    by (simp add: encrypt_and_sign_def encrypt_hello c sign_hello g signed_env_def)
qed

lemma load_alice_cert:
  "load_pem_x509_certificate ideal (cert_public_bytes_pem ideal alice_cert) = Inr alice_cert"
  by (simp add: ideal_def alice_cert_def ideal_load_cert_def load_pem_def ideal_json_loads_ser
      del: ser.simps)

theorem import_of_export_witness:
  "private_key alice = Some (SK ''alice-key'') \<and> certificate alice = Some alice_cert
   \<and> signs_for ideal (SK ''alice-key'') (cert_public_key ideal alice_cert)
   \<and> bytes_decode ideal (cert_public_bytes_pem ideal alice_cert)
       = Inr (cert_public_bytes_pem ideal alice_cert)
   \<and> cert_public_bytes_pem ideal alice_cert \<noteq> []
   \<and> load_pem_x509_certificate ideal (cert_public_bytes_pem ideal alice_cert) = Inr alice_cert
   \<and> cert_common_names ideal alice_cert \<noteq> []
   \<and> b64_ok ideal \<and> json_ok ideal
   \<and> encrypt_and_sign ideal alice draws0 ''hello'' = Inr signed_env
   \<and> meta0 ''title'' = Some (JStr ''Day one'') \<and> meta0 ''created'' = Some (JStr ''2024-01-01T00:00:00'')
   \<and> is_revoked ideal bob Map.empty (JStr (str_int (cert_serial_number ideal alice_cert))) = Inr False
   \<and> (\<exists>pkg m c'.
         export_entry ideal alice (JInt 1) meta0 signed_env = Inr pkg
         \<and> import_entry ideal bob Map.empty pkg = Inr (m, signed_env, True, False, c')
         \<and> cert_serial_number ideal c' = cert_serial_number ideal alice_cert
         \<and> m ''title'' = Some (JStr ''Day one'') \<and> m ''created'' = Some (JStr ''2024-01-01T00:00:00''))"
proof -
  have sk: "private_key alice = Some (SK ''alice-key'')" by (simp add: alice_def)
  have sf: "signs_for ideal (SK ''alice-key'') (cert_public_key ideal alice_cert)"
    using ideal_signs_for[of "''alice-key''"] by (simp add: ideal_def alice_cert_def)
  have cn: "cert_common_names ideal alice_cert \<noteq> []"
    by (simp add: ideal_def alice_cert_def)
  have t: "meta0 ''title'' = Some (JStr ''Day one'')"
    and c: "meta0 ''created'' = Some (JStr ''2024-01-01T00:00:00'')"
    by (simp_all add: meta0_def)
  have l: "is_revoked ideal bob Map.empty (JStr (str_int (cert_serial_number ideal alice_cert))) = Inr False"
    by (simp add: is_revoked_def load_global_revoked_def bob_def)
  note ex = import_of_export[OF sk alice_certificate sf alice_cert_pem_text alice_cert_pem_nonempty
      load_alice_cert cn ideal_b64_ok ideal_json_ok encrypt_and_sign_hello t c l, of "JInt 1"]
  show ?thesis
    by (intro conjI sk alice_certificate sf alice_cert_pem_text alice_cert_pem_nonempty
        load_alice_cert cn ideal_b64_ok ideal_json_ok encrypt_and_sign_hello t c l ex)
qed

subsection \<open>C4: a keystore that fails to load\<close>

lemma load_missing: "fs (keystore_path km) = None \<Longrightarrow> load_keystore L km fs password = (False, km)"
  by (simp add: load_keystore_def)

lemma load_unreadable:
  "fs (keystore_path km) = Some content \<Longrightarrow>
   bind_exc (read_keystore_data L content password)
     (\<lambda>kd. pem_entry L kd ''private_key'' (load_pem_private_key L)) = Inl e \<Longrightarrow>
   load_keystore L km fs password = (False, km)"
  by (cases "read_keystore_data L content password")
     (simp_all add: load_keystore_def load_keystore_try_def)

lemma load_keystore_try_state:
  "load_keystore_try L km content password = (r, km') \<Longrightarrow>
     (\<exists>c. r = Inr True \<and> (\<exists>sk pk. km' = km\<lparr>private_key := Some sk, public_key := Some pk, certificate := c\<rparr>))
     \<or> (\<exists>e. r = Inl e \<and> (km' = km \<or> (\<exists>sk. km' = km\<lparr>private_key := Some sk\<rparr>)
              \<or> (\<exists>sk pk. km' = km\<lparr>private_key := Some sk, public_key := Some pk\<rparr>)))"
  unfolding load_keystore_try_def Let_def
  by (auto split: sum.splits if_splits)

lemma load_failed_state:
  assumes "load_keystore L km fs password = (False, km')"
  shows "km' = km \<or> (\<exists>sk. km' = km\<lparr>private_key := Some sk\<rparr>)
         \<or> (\<exists>sk pk. km' = km\<lparr>private_key := Some sk, public_key := Some pk\<rparr>)"
proof (cases "fs (keystore_path km)")
  case None
  with assms show ?thesis by (simp add: load_keystore_def)
next
  case (Some content)
  obtain r k where t: "load_keystore_try L km content password = (r, k)"
    by (cases "load_keystore_try L km content password")
  from assms Some t have "k = km'" and "r \<noteq> Inr True"
    by (auto simp: load_keystore_def split: sum.splits)
  with load_keystore_try_state[OF t] show ?thesis by auto
qed

lemma ideal_pbkdf2_length: "length (pbkdf2_hmac_sha256 ideal password salt) = 32"
  by (simp add: ideal_def ideal_pbkdf2_def)

lemma salt0_iv_lengths: "length (urandom16 draws0) = 16"
  by (simp add: draws0_def)

lemma read_keystore_text:
  "read_keystore_data ideal (keystore_text pw kd) pw'
     = bind_exc (aes_cbc_decrypt ideal (pbkdf2_hmac_sha256 ideal pw' salt0) (urandom16 draws0)
                  (map (shift_by (key_shift (pbkdf2_hmac_sha256 ideal pw salt0) (urandom16 draws0)))
                     (pad16 (json_dumps ideal False kd))))
         (\<lambda>dp. bind_exc (last_byte dp) (\<lambda>n.
            bind_exc (bytes_decode ideal (drop_last dp n)) (json_loads ideal)))"
proof -
  have l: "json_loads ideal (json_dumps ideal False v) = Inr v" for v
    using ideal_json_ok by (simp add: json_ok_def)
  show ?thesis
    by (simp add: read_keystore_data_def keystore_text_def l Let_def)
qed

lemma shift_correct_horse:
  "key_shift (pbkdf2_hmac_sha256 ideal ''correct horse'' salt0) (urandom16 draws0) = 157"
  by code_simp

lemma shift_troubador:
  "key_shift (pbkdf2_hmac_sha256 ideal ''tr0ub4dor'' salt0) (urandom16 draws0) = 144"
  by code_simp

lemma shifted_brace: "(of_char (shift_by 112 (shift_by 157 (CHR ''{''))) :: nat) = 136"
  by (simp add: shift_by_def)

lemma ideal_aes_decrypt_shift:
  "length k = 32 \<Longrightarrow> length iv = 16 \<Longrightarrow> length c mod 16 = 0 \<Longrightarrow>
     aes_cbc_decrypt ideal k iv c = Inr (map (shift_by (256 - key_shift k iv)) c)"
  by (simp add: ideal_def ideal_aes_decrypt_def aes_args_def)

lemma dumps_dict_head: "json_dumps ideal False (JObj kvs) = CHR ''{'' # ser_members kvs"
  by (simp add: ideal_def)

lemma garbage_fails:
  assumes "128 \<le> (of_char c :: nat)"
  shows "\<exists>e. bind_exc (last_byte (c # r)) (\<lambda>n.
              bind_exc (bytes_decode ideal (drop_last (c # r) n)) (json_loads ideal)) = Inl e"
proof -
  obtain n where n: "last_byte (c # r) = Inr n" by (simp add: last_byte_def)
  let ?q = "drop_last (c # r) n"
  have "?q = [] \<or> (\<exists>q'. ?q = c # q')"
    by (cases "length (c # r) - n") (auto simp: drop_last_def)
  then show ?thesis
  proof
    assume "?q = []"
    then show ?thesis using n by (simp add: ideal_def ideal_bytes_decode_def ideal_json_loads_def)
  next
    assume "\<exists>q'. ?q = c # q'"
    then obtain q' where "?q = c # q'" by blast
    then show ?thesis using n assms by (simp add: ideal_def ideal_bytes_decode_def)
  qed
qed

lemma wrong_password_read:
  "\<exists>e. read_keystore_data ideal (keystore_text ''correct horse'' alice_keystore_data) ''tr0ub4dor''
        = Inl e"
proof -
  let ?m = "json_dumps ideal False alice_keystore_data"
  obtain tl where m: "pad16 ?m = CHR ''{'' # tl"
    by (simp add: alice_keystore_data_def dumps_dict_head pad16_def Let_def
        del: ser_members.simps)
  have len: "length (map (shift_by 157) (pad16 ?m)) mod 16 = 0"
    by (simp add: pad16_length)
  have d: "aes_cbc_decrypt ideal (pbkdf2_hmac_sha256 ideal ''tr0ub4dor'' salt0) (urandom16 draws0)
             (map (shift_by 157) (pad16 ?m))
           = Inr (map (shift_by 112) (map (shift_by 157) (pad16 ?m)))"
    using ideal_aes_decrypt_shift[OF ideal_pbkdf2_length salt0_iv_lengths len, of "''tr0ub4dor''" salt0]
    by (simp add: shift_troubador)
  have "map (shift_by 112) (map (shift_by 157) (pad16 ?m))
          = shift_by 112 (shift_by 157 (CHR ''{'')) # map (shift_by 112) (map (shift_by 157) tl)"
    by (simp add: m)
  with garbage_fails[of "shift_by 112 (shift_by 157 (CHR ''{''))"
      "map (shift_by 112) (map (shift_by 157) tl)"] shifted_brace
  have "\<exists>e. bind_exc (last_byte (map (shift_by 112) (map (shift_by 157) (pad16 ?m)))) (\<lambda>n.
              bind_exc (bytes_decode ideal (drop_last (map (shift_by 112) (map (shift_by 157) (pad16 ?m))) n))
                (json_loads ideal)) = Inl e"
    by simp
  then show ?thesis
    by (simp add: read_keystore_text shift_correct_horse d)
qed

lemma ideal_aes_encrypt_shift:
  "length k = 32 \<Longrightarrow> length iv = 16 \<Longrightarrow> length m mod 16 = 0 \<Longrightarrow>
     aes_cbc_encrypt ideal k iv m = Inr (map (shift_by (key_shift k iv)) m)"
  by (simp add: ideal_def ideal_aes_encrypt_def aes_args_def)

text \<open>The first keystore is the one \<open>save_keystore\<close> writes, next to the certificate file.\<close>

lemma alice_saves:
  "save_keystore ideal alice Map.empty ''correct horse'' salt0 (urandom16 draws0)
     = Inr (alice_keystore(cert_path alice \<mapsto> cert_public_bytes_pem ideal alice_cert))"
proof -
  have k: "private_key alice = Some (SK ''alice-key'')" "public_key alice = Some (PK ''alice-key'')"
    by (simp_all add: alice_def)
  have e: "aes_cbc_encrypt ideal (pbkdf2_hmac_sha256 ideal ''correct horse'' salt0) (urandom16 draws0)
             (pad16 m)
           = Inr (map (shift_by (key_shift (pbkdf2_hmac_sha256 ideal ''correct horse'' salt0)
                                   (urandom16 draws0))) (pad16 m))" for m
    by (rule ideal_aes_encrypt_shift[OF ideal_pbkdf2_length salt0_iv_lengths pad16_length])
  show ?thesis
    by (simp add: save_keystore_def k alice_certificate alice_cert_pem_nonempty Let_def e
        alice_keystore_def keystore_text_def alice_keystore_data_def)
qed

lemma private_only_text:
  "bytes_decode ideal (json_dumps ideal False private_only) = Inr (json_dumps ideal False private_only)"
  by code_simp

lemma read_truncated:
  "read_keystore_data ideal (keystore_text ''correct horse'' private_only) ''correct horse''
     = Inr private_only"
proof -
  have l: "json_loads ideal (json_dumps ideal False v) = Inr v" for v
    using ideal_json_ok by (simp add: json_ok_def)
  have d: "aes_cbc_decrypt ideal (pbkdf2_hmac_sha256 ideal ''correct horse'' salt0) (urandom16 draws0)
             (map (shift_by (key_shift (pbkdf2_hmac_sha256 ideal ''correct horse'' salt0)
                               (urandom16 draws0)))
                (pad16 (json_dumps ideal False private_only)))
           = Inr (pad16 (json_dumps ideal False private_only))"
    by (rule ideal_aes_inverse[OF ideal_pbkdf2_length salt0_iv_lengths pad16_length])
  note strip = pad16_strip[of "json_dumps ideal False private_only"
      "\<lambda>b. bind_exc (bytes_decode ideal b) (json_loads ideal)"]
  show ?thesis
    by (simp add: read_keystore_text d strip private_only_text l)
qed

lemma ideal_load_private_pem: "load_pem_private_key ideal (private_bytes_pem ideal (SK n)) = Inr (SK n)"
  by (simp add: ideal_def ideal_load_private_def load_pem_def ideal_json_loads_ser del: ser.simps)

lemma load_truncated:
  "load_keystore ideal alice_fresh truncated_keystore ''correct horse''
     = (False, alice_fresh\<lparr>private_key := Some (SK ''alice-key'')\<rparr>)"
proof -
  have p: "keystore_path alice_fresh = keystore_path alice" by (simp add: alice_fresh_def)
  have a: "pem_entry ideal private_only ''private_key'' (load_pem_private_key ideal)
             = Inr (SK ''alice-key'')"
    by (simp add: pem_entry_def private_only_def ideal_load_private_pem)
  have b: "pem_entry ideal private_only ''public_key'' (load_pem_public_key ideal)
             = Inl (Raise KeyError (quote ''public_key''))"
    by (simp add: pem_entry_def private_only_def)
  show ?thesis
    by (simp add: load_keystore_def truncated_keystore_def p load_keystore_try_def read_truncated a b)
qed

text \<open>
  C4 says that \<open>load_keystore\<close>, on a wrong password or a corrupt keystore, fails and leaves
  private key, public key and certificate as they were. The three fields are assigned one by
  one inside the \<open>try\<close> block, so a keystore whose decrypted JSON has a good \<open>private_key\<close> entry
  but no \<open>public_key\<close> entry makes a key manager that held nothing return \<open>False\<close> and hold a
  private key without a public key.
\<close>

theorem load_keystore_partial_counterexample:
  "private_key alice_fresh = None \<and> public_key alice_fresh = None \<and> certificate alice_fresh = None
   \<and> fst (load_keystore ideal alice_fresh truncated_keystore ''correct horse'') = False
   \<and> private_key (snd (load_keystore ideal alice_fresh truncated_keystore ''correct horse''))
       = Some (SK ''alice-key'')
   \<and> public_key (snd (load_keystore ideal alice_fresh truncated_keystore ''correct horse'')) = None"
  by (simp add: load_truncated) (simp add: alice_fresh_def)

text \<open>
  C4 as amended: \<open>load_keystore\<close> fails by returning \<open>False\<close>. It leaves the key state exactly
  as it was when the keystore file is missing and when reading it fails before a private key
  is loaded, that is when the file is not a JSON keystore, does not decrypt under the password
  to padded JSON text (the case of a wrong password), or has no loadable \<open>private_key\<close> entry.
  In every failing case the state is the old one with at most the private key, or the private
  and the public key, replaced; the certificate is as before.
\<close>

theorem load_keystore_failure:
  "(fs (keystore_path km) = None \<longrightarrow> load_keystore L km fs password = (False, km))
   \<and> (fs (keystore_path km) = Some content
        \<and> bind_exc (read_keystore_data L content password)
              (\<lambda>kd. pem_entry L kd ''private_key'' (load_pem_private_key L)) = Inl e \<longrightarrow>
        load_keystore L km fs password = (False, km))
   \<and> (load_keystore L km fs password = (False, km') \<longrightarrow>
        km' = km \<or> (\<exists>sk. km' = km\<lparr>private_key := Some sk\<rparr>)
        \<or> (\<exists>sk pk. km' = km\<lparr>private_key := Some sk, public_key := Some pk\<rparr>))"
  using load_missing[of fs km L password] load_unreadable[of fs km content L password e]
    load_failed_state[of L km fs password km']
  by blast

theorem load_keystore_failure_witness:
  "Map.empty (keystore_path alice_fresh) = (None :: string option)
   \<and> load_keystore ideal alice_fresh Map.empty ''correct horse'' = (False, alice_fresh)
   \<and> alice_keystore (keystore_path alice_fresh)
       = Some (keystore_text ''correct horse'' alice_keystore_data)
   \<and> (\<exists>e. bind_exc (read_keystore_data ideal (keystore_text ''correct horse'' alice_keystore_data)
                      ''tr0ub4dor'')
              (\<lambda>kd. pem_entry ideal kd ''private_key'' (load_pem_private_key ideal)) = Inl e)
   \<and> load_keystore ideal alice_fresh alice_keystore ''tr0ub4dor'' = (False, alice_fresh)
   \<and> load_keystore ideal alice_fresh truncated_keystore ''correct horse''
       = (False, alice_fresh\<lparr>private_key := Some (SK ''alice-key'')\<rparr>)
   \<and> (alice_fresh\<lparr>private_key := Some (SK ''alice-key'')\<rparr> = alice_fresh
        \<or> (\<exists>sk. alice_fresh\<lparr>private_key := Some (SK ''alice-key'')\<rparr>
                   = alice_fresh\<lparr>private_key := Some sk\<rparr>)
        \<or> (\<exists>sk pk. alice_fresh\<lparr>private_key := Some (SK ''alice-key'')\<rparr>
                   = alice_fresh\<lparr>private_key := Some sk, public_key := Some pk\<rparr>))"
proof -
  have n: "Map.empty (keystore_path alice_fresh) = (None :: string option)" by simp
  from load_keystore_failure[of Map.empty alice_fresh ideal "''correct horse''"] n
  have a: "load_keystore ideal alice_fresh Map.empty ''correct horse'' = (False, alice_fresh)"
    by blast
  have f: "alice_keystore (keystore_path alice_fresh)
             = Some (keystore_text ''correct horse'' alice_keystore_data)"
    by (simp add: alice_keystore_def alice_fresh_def)
  from wrong_password_read obtain e where
    "read_keystore_data ideal (keystore_text ''correct horse'' alice_keystore_data) ''tr0ub4dor'' = Inl e"
    by blast
  then have r: "bind_exc (read_keystore_data ideal (keystore_text ''correct horse'' alice_keystore_data)
                      ''tr0ub4dor'')
              (\<lambda>kd. pem_entry ideal kd ''private_key'' (load_pem_private_key ideal)) = Inl e"
    by simp
  from load_keystore_failure[of alice_keystore alice_fresh ideal "''tr0ub4dor''"
      "keystore_text ''correct horse'' alice_keystore_data" e] f r
  have b: "load_keystore ideal alice_fresh alice_keystore ''tr0ub4dor'' = (False, alice_fresh)"
    by blast
  from r have r': "\<exists>e. bind_exc (read_keystore_data ideal (keystore_text ''correct horse'' alice_keystore_data)
                      ''tr0ub4dor'')
              (\<lambda>kd. pem_entry ideal kd ''private_key'' (load_pem_private_key ideal)) = Inl e"
    by blast
  from load_keystore_failure[of truncated_keystore alice_fresh ideal "''correct horse''" _ _
      "alice_fresh\<lparr>private_key := Some (SK ''alice-key'')\<rparr>"] load_truncated
  have c: "alice_fresh\<lparr>private_key := Some (SK ''alice-key'')\<rparr> = alice_fresh
        \<or> (\<exists>sk. alice_fresh\<lparr>private_key := Some (SK ''alice-key'')\<rparr>
                   = alice_fresh\<lparr>private_key := Some sk\<rparr>)
        \<or> (\<exists>sk pk. alice_fresh\<lparr>private_key := Some (SK ''alice-key'')\<rparr>
                   = alice_fresh\<lparr>private_key := Some sk, public_key := Some pk\<rparr>)"
    by blast
  show ?thesis by (intro conjI n a f r' b load_truncated c)
qed

end
